theory Spec2Isabelle
  imports Complex_Main
begin

section \<open>Conventions of the embedding\<close>

text \<open>
  The program is \<^verbatim>\<open>app.py\<close>, a single-file Streamlit application. The functions
  embedded here are its calculation utilities (\<^verbatim>\<open>calc_bmi\<close>,
  \<^verbatim>\<open>mifflin_st_jeor_bmr\<close>, \<^verbatim>\<open>activity_factor\<close>,
  \<^verbatim>\<open>target_calories_from_goal\<close>, \<^verbatim>\<open>macro_plan\<close>), the handler of the form
  that chains them, the meal generator \<^verbatim>\<open>meal_suggestions\<close> and the landmark geometry
  of \<^verbatim>\<open>analyze_posture\<close>.

  \<^item> A Python \<^verbatim>\<open>str\<close> is a sequence of Unicode code points: \<open>ustr\<close> is a list of
    code points, and every literal of the source is written out code point by code point.
  \<^item> A Python \<^verbatim>\<open>float\<close> is a binary double. Numbers are treated at two levels.
    \<^verbatim>\<open>calc_bmi\<close>, \<^verbatim>\<open>target_calories_from_goal\<close> and the handler of the form are
    evaluated as the machine evaluates them: every operation rounds its exact result to
    the nearest double (\<open>rd\<close>), overflows to an infinity and can raise the exceptions of
    Python. \<open>mifflin_st_jeor_bmr\<close>, \<open>macro_plan\<close> and the posture geometry are also
    given as the values of the source expressions in exact real arithmetic; the handler
    uses the floating-point versions \<open>mifflin_st_jeor_bmr_float\<close> and
    \<open>macro_plan_float\<close>. The sign of zero is not modelled.
  \<^item> Python's \<^verbatim>\<open>int\<close> is \<open>int\<close>.
  \<^item> An exception is a value \<open>Inl e\<close> of the sum type \<open>py_error + 'a\<close>.
\<close>

type_synonym ustr = "nat list"

datatype py_error = ZeroDivisionError | OverflowError | ValueError

section \<open>Built-in operations of Python used by the program\<close>

text \<open>Float division \<^verbatim>\<open>a / b\<close>: raises \<^verbatim>\<open>ZeroDivisionError\<close> on a zero divisor.\<close>

definition py_div :: "real \<Rightarrow> real \<Rightarrow> py_error + real" where
  "py_div a b = (if b = 0 then Inl ZeroDivisionError else Inr (a / b))"

text \<open>
  \<^verbatim>\<open>round(x)\<close> with one argument returns the nearest integer, and of two equally near
  integers the even one.
\<close>

definition py_round :: "real \<Rightarrow> int" where
  "py_round x =
     (let f = \<lfloor>x\<rfloor>; d = x - of_int f
      in if d < 1 / 2 then f
         else if 1 / 2 < d then f + 1
         else if even f then f else f + 1)"

text \<open>\<^verbatim>\<open>round(x, 2)\<close>: the same rounding at the second decimal place.\<close>

definition py_round2 :: "real \<Rightarrow> real" where
  "py_round2 x = of_int (py_round (x * 100)) / 100"

section \<open>Binary floating point\<close>

subsection \<open>Rounding to the nearest double\<close>

text \<open>
  \<open>expo x\<close> is the binary exponent of a positive number: \<open>2 powi expo x \<le> x < 2 powi
  (expo x + 1)\<close>. \<open>rd x\<close> is the double nearest to \<open>x\<close>, of two equally near ones the
  one with the even significand: \<open>x\<close> is scaled so that the 53 bits of the significand are
  its integer part (the exponent is held at \<open>- 1022\<close> for subnormal numbers), rounded
  like \<^verbatim>\<open>round\<close>, and scaled back. \<open>rd\<close> has no largest value: \<open>fl\<close> below turns
  a result of magnitude \<open>2 ^ 1024\<close> or more into an infinity.
\<close>

function expo :: "real \<Rightarrow> int" where
  "expo x =
     (if x \<le> 0 then 0
      else if 2 \<le> x then expo (x / 2) + 1
      else if x < 1 then expo (x * 2) - 1
      else 0)"
  by pat_completeness auto
termination
proof (relation "measures [\<lambda>x. nat \<lceil>max x (1 / x)\<rceil>, \<lambda>x. if x < 1 then 1 else 0]")
  show "wf (measures [\<lambda>x. nat \<lceil>max x (1 / x)\<rceil>, \<lambda>x::real. if x < 1 then 1 else 0])"
    by simp
next
  fix x :: real
  assume a: "\<not> x \<le> 0" "2 \<le> x"
  have h1: "1 / (x / 2) \<le> 1" and h2: "1 \<le> x / 2" using a by (simp_all add: field_simps)
  have m: "max (x / 2) (1 / (x / 2)) = x / 2"
    using h1 h2 by (intro max_absorb1) linarith
  have h3: "1 / x \<le> 1" and h4: "1 \<le> x" using a by (simp_all add: field_simps)
  have m': "max x (1 / x) = x"
    using h3 h4 by (intro max_absorb1) linarith
  have "\<lceil>x / 2\<rceil> \<le> \<lceil>x - 1\<rceil>" using a by (intro ceiling_mono) simp
  then have "\<lceil>x / 2\<rceil> < \<lceil>x\<rceil>" by simp
  moreover have "0 < \<lceil>x\<rceil>" using a by simp
  ultimately have "nat \<lceil>x / 2\<rceil> < nat \<lceil>x\<rceil>" by linarith
  then have lt: "nat \<lceil>max (x / 2) (1 / (x / 2))\<rceil> < nat \<lceil>max x (1 / x)\<rceil>"
    by (simp only: m m')
  show "(x / 2, x) \<in> measures [\<lambda>x. nat \<lceil>max x (1 / x)\<rceil>, \<lambda>x. if x < 1 then 1 else 0]"
    by (rule measures_less) (rule lt)
next
  fix x :: real
  assume a: "\<not> x \<le> 0" "\<not> 2 \<le> x" "x < 1"
  show "(x * 2, x) \<in> measures [\<lambda>x. nat \<lceil>max x (1 / x)\<rceil>, \<lambda>x. if x < 1 then 1 else 0]"
  proof (cases "x \<le> 1 / 2")
    case True
    define y where "y = 1 / x"
    have y2: "2 \<le> y" using a True by (simp add: y_def field_simps)
    have xy: "x \<le> y" using a y2 by linarith
    have mx: "max x (1 / x) = y"
      unfolding y_def [symmetric] using xy by (rule max_absorb2)
    have e2: "1 / (x * 2) = y / 2" by (simp add: y_def)
    have "x * 2 \<le> y / 2" using True y2 by linarith
    then have mx2: "max (x * 2) (1 / (x * 2)) = y / 2"
      unfolding e2 by (rule max_absorb2)
    have "\<lceil>y / 2\<rceil> \<le> \<lceil>y - 1\<rceil>" using y2 by (intro ceiling_mono) simp
    then have "\<lceil>y / 2\<rceil> < \<lceil>y\<rceil>" by simp
    moreover have "0 < \<lceil>y\<rceil>" using y2 by simp
    ultimately have "nat \<lceil>y / 2\<rceil> < nat \<lceil>y\<rceil>" by linarith
    then have lt: "nat \<lceil>max (x * 2) (1 / (x * 2))\<rceil> < nat \<lceil>max x (1 / x)\<rceil>"
      by (simp only: mx mx2)
    show ?thesis by (rule measures_less) (rule lt)
  next
    case False
    then have h: "1 / 2 < x" by simp
    define y where "y = 1 / x"
    have y1: "1 < y" "y < 2" using h a by (simp_all add: y_def field_simps)
    have x2: "1 < x * 2" "x * 2 < 2" using h a by simp_all
    have e2: "1 / (x * 2) = y / 2" by (simp add: y_def)
    have "y / 2 \<le> x * 2" using y1 x2 by linarith
    then have mx2: "max (x * 2) (1 / (x * 2)) = x * 2"
      unfolding e2 by (rule max_absorb1)
    have "x \<le> y" using a y1 by linarith
    then have mx: "max x (1 / x) = y"
      unfolding y_def [symmetric] by (rule max_absorb2)
    have c1: "\<lceil>x * 2\<rceil> = 2" using x2 by (simp add: ceiling_eq_iff)
    have c2: "\<lceil>y\<rceil> = 2" using y1 by (simp add: ceiling_eq_iff)
    have le: "nat \<lceil>max (x * 2) (1 / (x * 2))\<rceil> \<le> nat \<lceil>max x (1 / x)\<rceil>"
      by (simp only: mx mx2 c1 c2)
    have g: "(if x * 2 < 1 then 1 else 0) < (if x < 1 then 1 else (0::nat))"
      using x2 a by simp
    show ?thesis
    proof (rule measures_lesseq)
      show "nat \<lceil>max (x * 2) (1 / (x * 2))\<rceil> \<le> nat \<lceil>max x (1 / x)\<rceil>" by (rule le)
      show "(x * 2, x) \<in> measures [\<lambda>x. if x < 1 then 1 else 0]"
        by (rule measures_less) (rule g)
    qed
  qed
qed

declare expo.simps [simp del]

definition rd :: "real \<Rightarrow> real" where
  "rd x =
     (let e = max (expo \<bar>x\<bar>) (- 1022);
          q = 2 powi (e - 52)
      in of_int (py_round (x / q)) * q)"

subsection \<open>Float values and operations\<close>

text \<open>
  A float is a finite double, an infinity or NaN. \<open>fl x\<close> is the float that an operation
  with the exact result \<open>x\<close> returns; \<open>lit c\<close> is the float denoted by a decimal literal
  and \<open>int_float n\<close> the conversion of an \<^verbatim>\<open>int\<close> operand. \<open>fmul\<close>, \<open>fadd\<close>, \<open>fsub\<close>
  are \<^verbatim>\<open>*\<close>, \<^verbatim>\<open>+\<close>, \<^verbatim>\<open>-\<close>, which never raise; \<open>fdiv\<close> is \<^verbatim>\<open>/\<close>, which raises
  \<^verbatim>\<open>ZeroDivisionError\<close> on a zero divisor and otherwise returns the IEEE quotient.
\<close>

datatype pyfloat = Fin real | PInf | NInf | NaN

definition fl :: "real \<Rightarrow> pyfloat" where
  "fl x =
     (let y = rd x
      in if 2 ^ 1024 \<le> y then PInf
         else if y \<le> - (2 ^ 1024) then NInf
         else Fin y)"

definition lit :: "real \<Rightarrow> pyfloat" where
  "lit c = fl c"

definition int_float :: "int \<Rightarrow> pyfloat" where
  "int_float n = fl (of_int n)"

fun sign_of :: "pyfloat \<Rightarrow> real" where
  "sign_of (Fin a) = sgn a"
| "sign_of PInf = 1"
| "sign_of NInf = - 1"
| "sign_of NaN = 0"

definition signed_inf :: "real \<Rightarrow> pyfloat" where
  "signed_inf s = (if 0 < s then PInf else if s < 0 then NInf else NaN)"

fun fneg :: "pyfloat \<Rightarrow> pyfloat" where
  "fneg (Fin a) = Fin (- a)"
| "fneg PInf = NInf"
| "fneg NInf = PInf"
| "fneg NaN = NaN"

fun fmul :: "pyfloat \<Rightarrow> pyfloat \<Rightarrow> pyfloat" where
  "fmul (Fin a) (Fin b) = fl (a * b)"
| "fmul NaN y = NaN"
| "fmul x NaN = NaN"
| "fmul x y = signed_inf (sign_of x * sign_of y)"

fun fadd :: "pyfloat \<Rightarrow> pyfloat \<Rightarrow> pyfloat" where
  "fadd (Fin a) (Fin b) = fl (a + b)"
| "fadd NaN y = NaN"
| "fadd x NaN = NaN"
| "fadd PInf NInf = NaN"
| "fadd NInf PInf = NaN"
| "fadd (Fin a) y = y"
| "fadd x y = x"

definition fsub :: "pyfloat \<Rightarrow> pyfloat \<Rightarrow> pyfloat" where
  "fsub x y = fadd x (fneg y)"

fun fdiv :: "pyfloat \<Rightarrow> pyfloat \<Rightarrow> py_error + pyfloat" where
  "fdiv x (Fin b) =
     (if b = 0 then Inl ZeroDivisionError
      else case x of
             Fin a \<Rightarrow> Inr (fl (a / b))
           | NaN \<Rightarrow> Inr NaN
           | _ \<Rightarrow> Inr (signed_inf (sign_of x * sgn b)))"
| "fdiv x NaN = Inr NaN"
| "fdiv (Fin a) y = Inr (Fin 0)"
| "fdiv x y = Inr NaN"

text \<open>
  \<open>fround\<close> is \<^verbatim>\<open>round(x)\<close>, which raises \<^verbatim>\<open>OverflowError\<close> on an infinity and
  \<^verbatim>\<open>ValueError\<close> on NaN; \<open>fround2\<close> is \<^verbatim>\<open>round(x, 2)\<close>, the decimal rounding of the
  exact value of the double, returned as a double; \<open>fmax0 x\<close> is \<^verbatim>\<open>max(0.0, x)\<close>,
  which returns \<open>x\<close> only if \<^verbatim>\<open>x > 0.0\<close> holds.
\<close>

fun fround :: "pyfloat \<Rightarrow> py_error + int" where
  "fround (Fin a) = Inr (py_round a)"
| "fround NaN = Inl ValueError"
| "fround x = Inl OverflowError"

fun fround2 :: "pyfloat \<Rightarrow> pyfloat" where
  "fround2 (Fin a) = fl (py_round2 a)"
| "fround2 x = x"

fun fmax0 :: "pyfloat \<Rightarrow> pyfloat" where
  "fmax0 (Fin a) = (if 0 < a then Fin a else Fin 0)"
| "fmax0 PInf = PInf"
| "fmax0 x = Fin 0"

subsection \<open>The power of the C library\<close>

text \<open>
  \<^verbatim>\<open>h_m ** 2\<close> calls \<^verbatim>\<open>pow\<close> of the C library, which is not part of the repository
  and need not round correctly: its result can differ from the nearest double by one
  unit in the last place. The function \<open>pow2\<close>, \<^verbatim>\<open>pow(x, 2.0)\<close> on a finite double, is
  therefore a parameter of \<open>calc_bmi\<close> and of the handler. \<open>pow2_accurate\<close> is what the
  theorems require of it: zero at zero, and a relative error of at most \<open>10 powi (- 15)\<close>
  for squares between \<open>10 powi (- 9)\<close> and \<open>10 ^ 8\<close>. \<open>square_rounded\<close>, the correctly
  rounded square, is such a function. \<open>fpow2\<close> is Python's \<^verbatim>\<open>x ** 2\<close> around it: an
  infinite result of a finite argument raises \<^verbatim>\<open>OverflowError\<close>, a result that underflows
  is zero.
\<close>

definition pow2_accurate :: "(real \<Rightarrow> pyfloat) \<Rightarrow> bool" where
  "pow2_accurate pow2 \<longleftrightarrow>
     pow2 0 = Fin 0 \<and>
     (\<forall>x. 1 / 1000000000 \<le> x * x \<and> x * x \<le> 100000000 \<longrightarrow>
        (\<exists>y. pow2 x = Fin y \<and> \<bar>y - x * x\<bar> \<le> x * x / 1000000000000000))"

definition square_rounded :: "real \<Rightarrow> pyfloat" where
  "square_rounded x = fl (x * x)"

fun fpow2 :: "(real \<Rightarrow> pyfloat) \<Rightarrow> pyfloat \<Rightarrow> py_error + pyfloat" where
  "fpow2 pow2 (Fin a) =
     (case pow2 a of
        Fin y \<Rightarrow> Inr (Fin y)
      | NaN \<Rightarrow> Inr NaN
      | _ \<Rightarrow> Inl OverflowError)"
| "fpow2 pow2 NaN = Inr NaN"
| "fpow2 pow2 x = Inr PInf"

section \<open>Nutrition utilities\<close>

subsection \<open>String literals of the form\<close>

text \<open>The two entries of the gender select box (the first one reads "male").\<close>

definition gender_male :: ustr where
  "gender_male =
   [30007, 24615]"

definition gender_female :: ustr where
  "gender_female =
   [22899, 24615]"

text \<open>The five keys of the activity table, in the order of the source.\<close>

definition level_low :: ustr where
  "level_low =
   [20302, 12356, 65288, 12487, 12473, 12463, 12527, 12540, 12463, 20013, 24515, 47, 36939,
    21205, 12411, 12412, 28961, 12375, 65289]"

definition level_fairly_low :: ustr where
  "level_fairly_low =
   [12420, 12420, 20302, 12356, 65288, 36913, 49, 12316, 50, 36605, 12356, 36939, 21205,
    65289]"

definition level_normal :: ustr where
  "level_normal =
   [26222, 36890, 65288, 36913, 51, 12316, 52, 36939, 21205, 65289]"

definition level_high :: ustr where
  "level_high =
   [39640, 12356, 65288, 36913, 53, 20197, 19978, 12495, 12540, 12489, 65289]"

definition level_very_high :: ustr where
  "level_very_high =
   [38750, 24120, 12395, 39640, 12356, 65288, 12450, 12473, 12522, 12540, 12488, 32026,
    65289]"

text \<open>
  The four entries of the goal select box: cut (-15 to 20%), mild cut (-10%), maintain,
  bulk (+10%).
\<close>

definition goal_cut :: ustr where
  "goal_cut =
   [28187, 37327, 65288, 45, 49, 53, 12316, 50, 48, 37, 65289]"

definition goal_mild_cut :: ustr where
  "goal_mild_cut =
   [32233, 12420, 12363, 28187, 37327, 65288, 45, 49, 48, 37, 65289]"

definition goal_maintain :: ustr where
  "goal_maintain =
   [29694, 29366, 32173, 25345]"

definition goal_bulk :: ustr where
  "goal_bulk =
   [22679, 37327, 65288, 43, 49, 48, 37, 65289]"

subsection \<open>The functions\<close>

text \<open>
  \<^verbatim>\<open>calc_bmi\<close>: the height in metres, its square, the quotient, rounded to two
  decimals, each step in floating point. The function has no check of its arguments; it
  fails where the division or the power fails. The arguments are finite doubles.
\<close>

definition calc_bmi :: "(real \<Rightarrow> pyfloat) \<Rightarrow> real \<Rightarrow> real \<Rightarrow> py_error + pyfloat" where
  "calc_bmi pow2 weight_kg height_cm =
     (case fdiv (Fin height_cm) (Fin 100) of
        Inl e \<Rightarrow> Inl e
      | Inr h_m \<Rightarrow>
          (case fpow2 pow2 h_m of
             Inl e \<Rightarrow> Inl e
           | Inr sq \<Rightarrow>
               (case fdiv (Fin weight_kg) sq of
                  Inl e \<Rightarrow> Inl e
                | Inr q \<Rightarrow> Inr (fround2 q))))"

text \<open>
  \<^verbatim>\<open>mifflin_st_jeor_bmr\<close>, first as the value of its expression in exact arithmetic,
  then as the handler evaluates it: the products and the sums are rounded one by one,
  from left to right, and the integer \<^verbatim>\<open>5 * age\<close> is converted to a float.
\<close>

definition mifflin_st_jeor_bmr :: "ustr \<Rightarrow> real \<Rightarrow> real \<Rightarrow> int \<Rightarrow> real" where
  "mifflin_st_jeor_bmr gender weight_kg height_cm age =
     (if gender = gender_male
      then 10 * weight_kg + 6.25 * height_cm - 5 * of_int age + 5
      else 10 * weight_kg + 6.25 * height_cm - 5 * of_int age - 161)"

definition mifflin_st_jeor_bmr_float :: "ustr \<Rightarrow> real \<Rightarrow> real \<Rightarrow> int \<Rightarrow> pyfloat" where
  "mifflin_st_jeor_bmr_float gender weight_kg height_cm age =
     (let t = fsub (fadd (fmul (Fin 10) (Fin weight_kg)) (fmul (Fin 6.25) (Fin height_cm)))
                (int_float (5 * age))
      in if gender = gender_male then fadd t (Fin 5) else fsub t (Fin 161))"

text \<open>The dictionary of \<^verbatim>\<open>activity_factor\<close>, and \<^verbatim>\<open>mapping.get(level, 1.2)\<close>.\<close>

definition activity_mapping :: "(ustr \<times> real) list" where
  "activity_mapping =
     [(level_low, 1.2),
      (level_fairly_low, 1.375),
      (level_normal, 1.55),
      (level_high, 1.725),
      (level_very_high, 1.9)]"

definition activity_factor :: "ustr \<Rightarrow> real" where
  "activity_factor level =
     (case map_of activity_mapping level of Some v \<Rightarrow> v | None \<Rightarrow> 1.2)"

text \<open>
  \<^verbatim>\<open>target_calories_from_goal\<close>: the product with the literal of the goal is rounded
  to a double, then \<^verbatim>\<open>round\<close> makes it an \<^verbatim>\<open>int\<close>.
\<close>

definition target_calories_from_goal :: "pyfloat \<Rightarrow> ustr \<Rightarrow> py_error + int" where
  "target_calories_from_goal tdee goal =
     (if goal = goal_cut then fround (fmul tdee (lit 0.85))
      else if goal = goal_mild_cut then fround (fmul tdee (lit 0.90))
      else if goal = goal_maintain then fround tdee
      else if goal = goal_bulk then fround (fmul tdee (lit 1.10))
      else fround tdee)"

text \<open>
  \<^verbatim>\<open>macro_plan\<close>: protein 1.8 g per kg, fat 25% of the calories, carbohydrate the
  rest and at least zero; the three values are rounded one by one. The goal is a
  parameter that the body does not read.
\<close>

definition macro_plan :: "real \<Rightarrow> real \<Rightarrow> ustr \<Rightarrow> int \<times> int \<times> int" where
  "macro_plan weight_kg calories goal =
     (let protein_g = 1.8 * weight_kg;
          fat_kcal = calories * 0.25;
          fat_g = fat_kcal / 9;
          protein_kcal = protein_g * 4;
          carbs_kcal = max 0 (calories - (protein_kcal + fat_kcal));
          carbs_g = carbs_kcal / 4
      in (py_round protein_g, py_round fat_g, py_round carbs_g))"

text \<open>
  \<^verbatim>\<open>macro_plan\<close> as the handler evaluates it, with the integer calorie target that
  the handler passes. The three values are rounded to integers in the order of the
  returned tuple, and the first one that is not finite raises.
\<close>

definition macro_plan_float :: "real \<Rightarrow> int \<Rightarrow> ustr \<Rightarrow> py_error + int \<times> int \<times> int" where
  "macro_plan_float weight_kg calories goal =
     (let protein_g = fmul (lit 1.8) (Fin weight_kg);
          fat_kcal = fmul (int_float calories) (Fin 0.25)
      in case fdiv fat_kcal (Fin 9) of
           Inl e \<Rightarrow> Inl e
         | Inr fat_g \<Rightarrow>
             (let protein_kcal = fmul protein_g (Fin 4);
                  carbs_kcal = fmax0 (fsub (int_float calories) (fadd protein_kcal fat_kcal))
              in case fdiv carbs_kcal (Fin 4) of
                   Inl e \<Rightarrow> Inl e
                 | Inr carbs_g \<Rightarrow>
                     (case fround protein_g of
                        Inl e \<Rightarrow> Inl e
                      | Inr p \<Rightarrow>
                          (case fround fat_g of
                             Inl e \<Rightarrow> Inl e
                           | Inr f \<Rightarrow>
                               (case fround carbs_g of
                                  Inl e \<Rightarrow> Inl e
                                | Inr c \<Rightarrow> Inr (p, f, c))))))"

text \<open>
  The handler of the form's submit button in \<^verbatim>\<open>main\<close> chains the five functions;
  an exception of any of them ends the handler with an error message. The number inputs
  of the form deliver a weight of 30 to 200 kg, a height of 120 to 220 cm and an age of
  10 to 100 years.
\<close>

record assessment =
  bmi :: pyfloat
  bmr :: pyfloat
  tdee :: pyfloat
  target_calories :: int
  protein_g :: int
  fat_g :: int
  carbs_g :: int

definition run_assessment ::
  "(real \<Rightarrow> pyfloat) \<Rightarrow> ustr \<Rightarrow> real \<Rightarrow> real \<Rightarrow> int \<Rightarrow> ustr \<Rightarrow> ustr \<Rightarrow>
     py_error + assessment" where
  "run_assessment pow2 gender weight_kg height_cm age activity_level goal =
     (case calc_bmi pow2 weight_kg height_cm of
        Inl e \<Rightarrow> Inl e
      | Inr b \<Rightarrow>
          (let bmr_val = mifflin_st_jeor_bmr_float gender weight_kg height_cm age;
               tdee_val = fmul bmr_val (lit (activity_factor activity_level))
           in case target_calories_from_goal tdee_val goal of
                Inl e \<Rightarrow> Inl e
              | Inr target_cal \<Rightarrow>
                  (case macro_plan_float weight_kg target_cal goal of
                     Inl e \<Rightarrow> Inl e
                   | Inr (p, f, c) \<Rightarrow>
                       Inr \<lparr>bmi = b, bmr = bmr_val, tdee = tdee_val,
                            target_calories = target_cal,
                            protein_g = p, fat_g = f, carbs_g = c\<rparr>)))"

section \<open>Meal suggestions\<close>

subsection \<open>String methods\<close>

text \<open>
  \<^verbatim>\<open>str.strip()\<close> removes the white space at both ends; \<open>is_space\<close> lists the code
  points that Python counts as white space. \<^verbatim>\<open>s.split(",")\<close> cuts at every comma and
  keeps empty parts. \<^verbatim>\<open>str.lower()\<close> is modelled on the Latin capitals A to Z; every
  other code point is kept, which is what \<^verbatim>\<open>lower\<close> does on the kana, kanji, digits
  and punctuation of the dish catalogue (case mappings of other scripts belong to
  Python's Unicode tables and are not reproduced). \<open>startswith s p\<close> is
  \<^verbatim>\<open>s.startswith(p)\<close>, \<open>contains s sub\<close> is \<^verbatim>\<open>sub in s\<close>, \<open>join sep xs\<close> is
  \<^verbatim>\<open>sep.join(xs)\<close>, \<open>str_int\<close> is the decimal text of an \<^verbatim>\<open>int\<close> in an f-string,
  and \<open>py_or xs ys\<close> is \<^verbatim>\<open>xs or ys\<close> on lists.
\<close>

definition is_space :: "nat \<Rightarrow> bool" where
  "is_space c =
     ((9 \<le> c \<and> c \<le> 13) \<or> (28 \<le> c \<and> c \<le> 32) \<or> c = 133 \<or> c = 160 \<or> c = 5760 \<or>
      (8192 \<le> c \<and> c \<le> 8202) \<or> c = 8232 \<or> c = 8233 \<or> c = 8239 \<or> c = 8287 \<or>
      c = 12288)"

definition strip :: "ustr \<Rightarrow> ustr" where
  "strip s = rev (dropWhile is_space (rev (dropWhile is_space s)))"

fun split :: "ustr \<Rightarrow> nat \<Rightarrow> ustr list" where
  "split [] sep = [[]]"
| "split (c # cs) sep =
     (if c = sep then [] # split cs sep
      else (case split cs sep of
              [] \<Rightarrow> [[c]]
            | part # parts \<Rightarrow> (c # part) # parts))"

definition lower :: "ustr \<Rightarrow> ustr" where
  "lower s = map (\<lambda>c. if 65 \<le> c \<and> c \<le> 90 then c + 32 else c) s"

fun startswith :: "ustr \<Rightarrow> ustr \<Rightarrow> bool" where
  "startswith s [] = True"
| "startswith [] (p # ps) = False"
| "startswith (c # cs) (p # ps) = (c = p \<and> startswith cs ps)"

fun contains :: "ustr \<Rightarrow> ustr \<Rightarrow> bool" where
  "contains [] sub = (sub = [])"
| "contains (c # cs) sub = (startswith (c # cs) sub \<or> contains cs sub)"

fun join :: "ustr \<Rightarrow> ustr list \<Rightarrow> ustr" where
  "join sep [] = []"
| "join sep [x] = x"
| "join sep (x # y # ys) = x @ sep @ join sep (y # ys)"

function str_nat :: "nat \<Rightarrow> ustr" where
  "str_nat n = (if n < 10 then [48 + n] else str_nat (n div 10) @ [48 + n mod 10])"
  by pat_completeness auto
termination
  by (relation "measure (\<lambda>n. n)") auto

declare str_nat.simps [simp del]

definition str_int :: "int \<Rightarrow> ustr" where
  "str_int i = (if i < 0 then 45 # str_nat (nat (- i)) else str_nat (nat i))"

definition py_or :: "'a list \<Rightarrow> 'a list \<Rightarrow> 'a list" where
  "py_or xs ys = (if xs = [] then ys else xs)"

subsection \<open>Literals of \<^verbatim>\<open>meal_suggestions\<close>\<close>

text \<open>
  \<open>cut_prefix\<close> is the argument of \<^verbatim>\<open>goal.startswith\<close>; the ten dishes follow in
  the order of the source; \<open>placeholder\<close> is the text that replaces an empty slot;
  \<open>guide_1\<close> to \<open>guide_8\<close> are the fixed pieces of the f-string of the guide, before
  \<^verbatim>\<open>strip\<close>, and \<open>note_cut\<close>, \<open>note_bulk\<close> its two coaching notes ("while cutting:
  keep fat low, mind high protein" and "bulk / maintain: move carbohydrate around the
  training").
\<close>

definition cut_prefix :: ustr where
  "cut_prefix =
   [28187, 37327]"

definition breakfast_1 :: ustr where
  "breakfast_1 =
   [12458, 12540, 12488, 12511, 12540, 12523, 43, 28961, 31958, 12520, 12540, 12464, 12523,
    12488, 43, 12505, 12522, 12540]"

definition breakfast_2 :: ustr where
  "breakfast_2 =
   [20840, 21365, 49, 43, 21365, 30333, 50, 12398, 12473, 12463, 12521, 12531, 12502,
    12523, 43, 29572, 31859, 12362, 12395, 12366, 12426]"

definition breakfast_3 :: ustr where
  "breakfast_3 =
   [12503, 12525, 12486, 12452, 12531, 12471, 12455, 12452, 12463, 43, 12496, 12490, 12490]"

definition lunch_1 :: ustr where
  "lunch_1 =
   [40335, 12416, 12397, 12464, 12522, 12523, 49, 53, 48, 103, 43, 38609, 31296, 31859, 49,
    53, 48, 103, 43, 12469, 12521, 12480]"

definition lunch_2 :: ustr where
  "lunch_2 =
   [39853, 12398, 22633, 28988, 12365, 43, 12373, 12388, 12414, 12356, 12418, 50, 48, 48,
    103, 43, 21619, 22092, 27713]"

definition lunch_3 :: ustr where
  "lunch_3 =
   [35910, 33104, 12473, 12486, 12540, 12461, 43, 29572, 31859, 49, 53, 48, 103, 43, 37326,
    33756, 28818, 12417]"

definition dinner_1 :: ustr where
  "dinner_1 =
   [30333, 36523, 39770, 12398, 12507, 12452, 12523, 28988, 12365, 43, 12502, 12525, 12483,
    12467, 12522, 12540, 43, 12376, 12419, 12364, 12356, 12418, 49, 53, 48, 103]"

definition dinner_2 :: ustr where
  "dinner_2 =
   [35930, 12498, 12524, 49, 48, 48, 103, 43, 30333, 33756, 12473, 12540, 12503, 43, 29572,
    31859, 49, 50, 48, 103]"

definition dinner_3 :: ustr where
  "dinner_3 =
   [40335, 12388, 12367, 12397, 37707, 65288, 26149, 38632, 23569, 37327, 65289]"

definition snack_1 :: ustr where
  "snack_1 =
   [12503, 12525, 12486, 12452, 12531, 12496, 12540, 47, 21644, 39080, 12362, 12395, 12366,
    12426, 47, 26525, 35910, 47, 12511, 12483, 12463, 12473, 12490, 12483, 12484, 23569,
    37327]"

definition placeholder :: ustr where
  "placeholder =
   [65288, 35442, 24403, 39135, 26448, 12434, 22238, 36991, 12375, 12390, 36984, 25246,
    65289]"

definition guide_1 :: ustr where
  "guide_1 =
   [10, 45, 32, 49, 26085, 12398, 30446, 27161, 65306]"

definition guide_2 :: ustr where
  "guide_2 =
   [32, 107, 99, 97, 108, 32, 47, 32, 80]"

definition guide_3 :: ustr where
  "guide_3 =
   [103, 32, 70]"

definition guide_4 :: ustr where
  "guide_4 =
   [103, 32, 67]"

definition guide_5 :: ustr where
  "guide_5 =
   [103, 10, 45, 32, 37197, 20998, 20363, 65306, 26397, 32, 50, 53, 37, 32, 47, 32, 26172,
    32, 51, 53, 37, 32, 47, 32, 22812, 32, 51, 48, 37, 32, 47, 32, 38291, 39135, 32, 49,
    48, 37, 10, 45, 32, 27700, 20998, 65306, 30446, 23433, 32, 20307, 37325, 40, 107, 103,
    41, 215, 51, 48, 12316, 51, 53, 32, 109, 108, 10, 45, 32]"

definition note_cut :: ustr where
  "note_cut =
   [28187, 37327, 20013, 65306, 33026, 36074, 25511, 12360, 12417, 12539, 39640, 12383,
    12435, 12401, 12367, 12434, 24847, 35672]"

definition note_bulk :: ustr where
  "note_bulk =
   [22679, 37327, 47, 32173, 25345, 65306, 28845, 27700, 21270, 29289, 12434, 36939, 21205,
    21069, 24460, 12395, 23492, 12379, 12427]"

definition guide_6 :: ustr where
  "guide_6 =
   [32, 10, 45, 32, 22909, 12415, 65306]"

definition prefs_empty :: ustr where
  "prefs_empty =
   [65288, 26410, 20837, 21147, 65289]"

definition guide_7 :: ustr where
  "guide_7 =
   [32, 47, 32, 12450, 12524, 12523, 12462, 12540, 22238, 36991, 65306]"

definition join_sep :: ustr where
  "join_sep =
   [44, 32]"

definition avoid_none :: ustr where
  "avoid_none =
   [12394, 12375]"

definition guide_8 :: ustr where
  "guide_8 =
   [10]"

text \<open>An allergy entry used below: the word for edamame, part of the one snack dish.\<close>

definition edamame :: ustr where
  "edamame =
   [26525, 35910]"

subsection \<open>The function\<close>

text \<open>
  \<open>ok\<close> is the nested function of the source, with the list \<open>avoid\<close> it closes over as
  first argument. The returned dictionary is the record \<open>meal_plan\<close>.
\<close>

record meal_plan =
  breakfast :: "ustr list"
  lunch :: "ustr list"
  dinner :: "ustr list"
  snack :: "ustr list"
  guide :: ustr

definition ok :: "ustr list \<Rightarrow> ustr \<Rightarrow> bool" where
  "ok avoid item = list_all (\<lambda>a. \<not> contains (lower item) (lower a)) avoid"

definition meal_suggestions ::
  "int \<Rightarrow> int \<Rightarrow> int \<Rightarrow> int \<Rightarrow> ustr \<Rightarrow> ustr \<Rightarrow> ustr \<Rightarrow> meal_plan" where
  "meal_suggestions cal p f c prefs allergies goal =
     (let avoid = map strip (filter (\<lambda>a. strip a \<noteq> []) (split allergies 44));
          lowfat = startswith goal cut_prefix;
          breakfast_ok = filter (ok avoid) [breakfast_1, breakfast_2, breakfast_3];
          lunch_ok = filter (ok avoid) [lunch_1, lunch_2, lunch_3];
          dinner_ok = filter (ok avoid) [dinner_1, dinner_2, dinner_3];
          snack_ok = filter (ok avoid) [snack_1];
          guide_text = strip
            (guide_1 @ str_int cal @ guide_2 @ str_int p @ guide_3 @ str_int f @ guide_4 @
             str_int c @ guide_5 @ (if lowfat then note_cut else note_bulk) @ guide_6 @
             (if prefs \<noteq> [] then prefs else prefs_empty) @ guide_7 @
             (if avoid \<noteq> [] then join join_sep avoid else avoid_none) @ guide_8)
      in \<lparr>breakfast = py_or (take 2 breakfast_ok) [placeholder],
          lunch = py_or (take 2 lunch_ok) [placeholder],
          dinner = py_or (take 2 dinner_ok) [placeholder],
          snack = take 1 snack_ok,
          guide = guide_text\<rparr>)"

section \<open>Posture analysis\<close>

subsection \<open>Landmarks and geometry\<close>

text \<open>
  \<^verbatim>\<open>analyze_posture\<close> reads ten of the landmarks that the pose detector returns, each
  through \<^verbatim>\<open>get_xy\<close> as a pair \<open>(x, y)\<close> of image coordinates (\<open>y\<close> grows
  downwards). The record \<open>landmarks\<close> holds these ten points under the names of the
  detector's enumeration.

  \<^verbatim>\<open>math.atan2\<close>, \<^verbatim>\<open>math.degrees\<close> and \<^verbatim>\<open>math.hypot\<close> are the real functions:
  \<open>atan2 y x\<close> is the angle of the point \<open>(x, y)\<close> in \<open>(- pi, pi]\<close>, and \<open>0\<close> at the
  origin. The nested functions \<^verbatim>\<open>line_angle_deg\<close> and \<^verbatim>\<open>dist\<close> follow the source
  (\<open>dist_points\<close>, since \<open>dist\<close> is the metric of the library).
\<close>

type_synonym point = "real \<times> real"

record landmarks =
  left_shoulder :: point
  right_shoulder :: point
  left_hip :: point
  right_hip :: point
  left_ear :: point
  right_ear :: point
  left_knee :: point
  right_knee :: point
  left_ankle :: point
  right_ankle :: point

definition atan2 :: "real \<Rightarrow> real \<Rightarrow> real" where
  "atan2 y x =
     (if 0 < x then arctan (y / x)
      else if x < 0 then (if 0 \<le> y then arctan (y / x) + pi else arctan (y / x) - pi)
      else if 0 < y then pi / 2
      else if y < 0 then - (pi / 2)
      else 0)"

definition degrees :: "real \<Rightarrow> real" where
  "degrees r = r * 180 / pi"

definition hypot :: "real \<Rightarrow> real \<Rightarrow> real" where
  "hypot x y = sqrt (x ^ 2 + y ^ 2)"

definition line_angle_deg :: "point \<Rightarrow> point \<Rightarrow> real" where
  "line_angle_deg p1 p2 =
     (let dx = fst p2 - fst p1;
          dy = snd p2 - snd p1
      in degrees (atan2 dy dx))"

definition dist_points :: "point \<Rightarrow> point \<Rightarrow> real" where
  "dist_points p1 p2 = hypot (fst p2 - fst p1) (snd p2 - snd p1)"

subsection \<open>Findings and the result\<close>

text \<open>
  A finding of the source is a message made of a fixed text for its kind and the
  formatted value; here it is the kind with the value. The tests
  \<^verbatim>\<open>any("..." in f for f in findings)\<close> that select the advice look for a word that
  occurs in the fixed text of one kind only, so they are tests of the kind. The result
  dictionary is the record \<open>posture_result\<close>; the two early returns have no advice entry,
  which is the empty list here.
\<close>

datatype finding = ShoulderTilt real | HipTilt real | HeadTilt real | KneeIn real

datatype advice_text = ShoulderAdvice | HipAdvice | HeadAdvice | KneeAdvice

datatype message = MediaPipeUnavailable | NoLandmarks | AnalysisDone

record posture_result =
  ok_flag :: bool
  message :: message
  findings :: "finding list"
  advice :: "advice_text list"

fun is_shoulder :: "finding \<Rightarrow> bool" where
  "is_shoulder (ShoulderTilt v) = True"
| "is_shoulder _ = False"

fun is_hip :: "finding \<Rightarrow> bool" where
  "is_hip (HipTilt v) = True"
| "is_hip _ = False"

fun is_head :: "finding \<Rightarrow> bool" where
  "is_head (HeadTilt v) = True"
| "is_head _ = False"

fun is_knee :: "finding \<Rightarrow> bool" where
  "is_knee (KneeIn v) = True"
| "is_knee _ = False"

text \<open>
  The fourth test of the source,
  \<^verbatim>\<open>if ankle_w > 0 and knee_w / ankle_w < 0.9\<close>, with its body: \<^verbatim>\<open>and\<close> evaluates
  the quotient only when the ankle distance is positive.
\<close>

definition knee_in_check :: "real \<Rightarrow> real \<Rightarrow> py_error + finding list" where
  "knee_in_check knee_w ankle_w =
     (if 0 < ankle_w
      then (case py_div knee_w ankle_w of
              Inl e \<Rightarrow> Inl e
            | Inr q \<Rightarrow>
                if q < 0.9
                then (case py_div knee_w ankle_w of
                        Inl e \<Rightarrow> Inl e
                      | Inr ratio \<Rightarrow> Inr [KneeIn ratio])
                else Inr [])
      else Inr [])"

text \<open>
  The arguments are the flag \<^verbatim>\<open>POSE_AVAILABLE\<close> and the landmarks that the detector
  found in the image, if any.
\<close>

definition analyze_posture :: "bool \<Rightarrow> landmarks option \<Rightarrow> py_error + posture_result" where
  "analyze_posture pose_available pose_landmarks =
     (if \<not> pose_available
      then Inr \<lparr>ok_flag = False, message = MediaPipeUnavailable, findings = [], advice = []\<rparr>
      else case pose_landmarks of
        None \<Rightarrow> Inr \<lparr>ok_flag = False, message = NoLandmarks, findings = [], advice = []\<rparr>
      | Some lm \<Rightarrow>
          (let shoulder_deg = line_angle_deg (right_shoulder lm) (left_shoulder lm);
               hip_deg = line_angle_deg (right_hip lm) (left_hip lm);
               head_deg = line_angle_deg (right_ear lm) (left_ear lm);
               knee_w = dist_points (left_knee lm) (right_knee lm);
               ankle_w = dist_points (left_ankle lm) (right_ankle lm);
               tilts =
                 (if 5 \<le> \<bar>shoulder_deg\<bar> then [ShoulderTilt shoulder_deg] else []) @
                 (if 5 \<le> \<bar>hip_deg\<bar> then [HipTilt hip_deg] else []) @
                 (if 5 \<le> \<bar>head_deg\<bar> then [HeadTilt head_deg] else [])
           in case knee_in_check knee_w ankle_w of
                Inl e \<Rightarrow> Inl e
              | Inr knee \<Rightarrow>
                  (let fs = tilts @ knee;
                       adv =
                         (if list_ex is_shoulder fs then [ShoulderAdvice] else []) @
                         (if list_ex is_hip fs then [HipAdvice] else []) @
                         (if list_ex is_head fs then [HeadAdvice] else []) @
                         (if list_ex is_knee fs then [KneeAdvice] else [])
                   in Inr \<lparr>ok_flag = True, message = AnalysisDone, findings = fs,
                           advice = adv\<rparr>)))"

subsection \<open>Symmetric landmark sets\<close>

text \<open>
  A pair of points is mirrored across the vertical line \<open>x = m\<close> when the two points
  have the same height and their \<open>x\<close> coordinates add up to \<open>2 m\<close>.
\<close>

definition mirror_pair :: "real \<Rightarrow> point \<Rightarrow> point \<Rightarrow> bool" where
  "mirror_pair m l r = (fst l + fst r = 2 * m \<and> snd l = snd r)"

definition mirrored :: "real \<Rightarrow> landmarks \<Rightarrow> bool" where
  "mirrored m lm =
     (mirror_pair m (left_shoulder lm) (right_shoulder lm) \<and>
      mirror_pair m (left_hip lm) (right_hip lm) \<and>
      mirror_pair m (left_ear lm) (right_ear lm) \<and>
      mirror_pair m (left_knee lm) (right_knee lm) \<and>
      mirror_pair m (left_ankle lm) (right_ankle lm))"

text \<open>
  Four landmark sets, all mirrored across \<open>x = 1/2\<close>, with coordinates that binary
  floating point represents exactly: knees closer together than the ankles; knees as far
  apart as the ankles; the left-hand points at the smaller \<open>x\<close>; both ankles at one
  point.
\<close>

definition narrow_knees :: landmarks where
  "narrow_knees =
     \<lparr>left_shoulder = (0.625, 0.25), right_shoulder = (0.375, 0.25),
      left_hip = (0.625, 0.5), right_hip = (0.375, 0.5),
      left_ear = (0.5625, 0.125), right_ear = (0.4375, 0.125),
      left_knee = (0.5625, 0.75), right_knee = (0.4375, 0.75),
      left_ankle = (0.75, 0.875), right_ankle = (0.25, 0.875)\<rparr>"

definition level_knees :: landmarks where
  "level_knees =
     \<lparr>left_shoulder = (0.625, 0.25), right_shoulder = (0.375, 0.25),
      left_hip = (0.625, 0.5), right_hip = (0.375, 0.5),
      left_ear = (0.5625, 0.125), right_ear = (0.4375, 0.125),
      left_knee = (0.625, 0.75), right_knee = (0.375, 0.75),
      left_ankle = (0.625, 0.875), right_ankle = (0.375, 0.875)\<rparr>"

definition swapped_sides :: landmarks where
  "swapped_sides =
     \<lparr>left_shoulder = (0.375, 0.25), right_shoulder = (0.625, 0.25),
      left_hip = (0.375, 0.5), right_hip = (0.625, 0.5),
      left_ear = (0.4375, 0.125), right_ear = (0.5625, 0.125),
      left_knee = (0.375, 0.75), right_knee = (0.625, 0.75),
      left_ankle = (0.375, 0.875), right_ankle = (0.625, 0.875)\<rparr>"

definition joined_ankles :: landmarks where
  "joined_ankles =
     \<lparr>left_shoulder = (0.625, 0.25), right_shoulder = (0.375, 0.25),
      left_hip = (0.625, 0.5), right_hip = (0.375, 0.5),
      left_ear = (0.5625, 0.125), right_ear = (0.4375, 0.125),
      left_knee = (0.5, 0.75), right_knee = (0.5, 0.75),
      left_ankle = (0.5, 0.875), right_ankle = (0.5, 0.875)\<rparr>"

text \<open>
  A landmark set whose ankles are not level: the right ankle is 0.375 to the side of the
  left one and 0.5 above it, so that the ankles are 0.625 apart; the knees are level and
  0.375 apart.
\<close>

definition diagonal_ankles :: landmarks where
  "diagonal_ankles =
     \<lparr>left_shoulder = (0.625, 0.25), right_shoulder = (0.375, 0.25),
      left_hip = (0.625, 0.5), right_hip = (0.375, 0.5),
      left_ear = (0.5625, 0.125), right_ear = (0.4375, 0.125),
      left_knee = (0.625, 0.75), right_knee = (0.25, 0.75),
      left_ankle = (0.625, 0.875), right_ankle = (0.25, 0.375)\<rparr>"

section \<open>Properties of the rounding\<close>

lemma py_round_cases:
  "py_round x = \<lfloor>x\<rfloor> \<or> py_round x = \<lfloor>x\<rfloor> + 1"
  by (simp add: py_round_def Let_def)

lemma py_round_floor_cases:
  "(py_round x = \<lfloor>x\<rfloor> \<and> x - of_int \<lfloor>x\<rfloor> \<le> 1 / 2) \<or>
   (py_round x = \<lfloor>x\<rfloor> + 1 \<and> 1 / 2 \<le> x - of_int \<lfloor>x\<rfloor>)"
  unfolding py_round_def Let_def by (cases "x - of_int \<lfloor>x\<rfloor> < 1 / 2") auto

lemma py_round_lower: "x - 1 / 2 \<le> of_int (py_round x)"
proof -
  have fl: "of_int \<lfloor>x\<rfloor> \<le> x" by linarith
  from py_round_floor_cases [of x] show ?thesis
  proof (elim disjE conjE)
    assume "py_round x = \<lfloor>x\<rfloor>" and "x - of_int \<lfloor>x\<rfloor> \<le> 1 / 2"
    then show ?thesis by linarith
  next
    assume "py_round x = \<lfloor>x\<rfloor> + 1" and "1 / 2 \<le> x - of_int \<lfloor>x\<rfloor>"
    with fl show ?thesis by linarith
  qed
qed

lemma py_round_upper: "of_int (py_round x) \<le> x + 1 / 2"
proof -
  have fl: "x < of_int \<lfloor>x\<rfloor> + 1" by linarith
  from py_round_floor_cases [of x] show ?thesis
  proof (elim disjE conjE)
    assume "py_round x = \<lfloor>x\<rfloor>" and "x - of_int \<lfloor>x\<rfloor> \<le> 1 / 2"
    then show ?thesis by linarith
  next
    assume "py_round x = \<lfloor>x\<rfloor> + 1" and "1 / 2 \<le> x - of_int \<lfloor>x\<rfloor>"
    with fl show ?thesis by linarith
  qed
qed

lemma py_round_error: "\<bar>of_int (py_round x) - x\<bar> \<le> 1 / 2"
  using py_round_lower [of x] py_round_upper [of x] by linarith

lemma py_round_nonneg: "0 \<le> x \<Longrightarrow> 0 \<le> py_round x"
proof -
  assume "0 \<le> x"
  then have "0 \<le> \<lfloor>x\<rfloor>" by simp
  then show ?thesis
    using py_round_cases [of x] by linarith
qed

section \<open>Properties of the floating-point rounding\<close>

text \<open>
  The exponent brackets its argument; \<open>rd\<close> moves a number by at most half a unit in the
  last place, which is a relative error of \<open>2 powi (- 53)\<close> outside the subnormal range.
\<close>

lemma expo_bracket:
  "0 < x \<Longrightarrow> 2 powi expo x \<le> x \<and> x < 2 powi (expo x + 1)"
proof (induction x rule: expo.induct)
  case (1 x)
  show ?case
  proof (cases "2 \<le> x")
    case True
    then have e: "expo x = expo (x / 2) + 1" using 1(3) by (subst expo.simps) simp
    have ih: "2 powi expo (x / 2) \<le> x / 2 \<and> x / 2 < 2 powi (expo (x / 2) + 1)"
      using 1(1) True 1(3) by simp
    show ?thesis using ih unfolding e by (simp add: power_int_add field_simps)
  next
    case False
    show ?thesis
    proof (cases "x < 1")
      case True
      then have e: "expo x = expo (x * 2) - 1" using 1(3) False by (subst expo.simps) simp
      have ih: "2 powi expo (x * 2) \<le> x * 2 \<and> x * 2 < 2 powi (expo (x * 2) + 1)"
        using 1(2) True False 1(3) by simp
      show ?thesis using ih unfolding e by (simp add: power_int_diff power_int_add field_simps)
    next
      case F2: False
      then have e: "expo x = 0" using 1(3) False by (subst expo.simps) simp
      show ?thesis using F2 False unfolding e by simp
    qed
  qed
qed

lemma rd_0: "rd 0 = 0"
  by (simp add: rd_def Let_def py_round_def)

lemma rd_abs_error:
  "\<bar>rd x - x\<bar> \<le> 2 powi (max (expo \<bar>x\<bar>) (- 1022) - 53)"
proof -
  define e where "e = max (expo \<bar>x\<bar>) (- 1022)"
  define q :: real where "q = 2 powi (e - 52)"
  have q0: "0 < q" by (simp add: q_def)
  have "rd x - x = (of_int (py_round (x / q)) - x / q) * q"
    using q0 by (simp add: rd_def Let_def e_def q_def algebra_simps)
  then have "\<bar>rd x - x\<bar> = \<bar>of_int (py_round (x / q)) - x / q\<bar> * q"
    using q0 by (simp add: abs_mult)
  also have "\<dots> \<le> (1 / 2) * q"
    using q0 py_round_error [of "x / q"] by (intro mult_right_mono) simp_all
  also have "(1 / 2) * q = 2 powi (e - 53)"
    by (simp add: q_def power_int_diff)
  finally show ?thesis by (simp add: e_def)
qed

lemma rd_rel:
  assumes "2 powi (- 1022) \<le> \<bar>x\<bar>"
  shows "\<bar>rd x - x\<bar> \<le> \<bar>x\<bar> / 2 ^ 53"
proof -
  have pos: "0 < \<bar>x\<bar>" using assms zero_less_power_int [of "2::real" "-1022"] by linarith
  have br: "2 powi expo \<bar>x\<bar> \<le> \<bar>x\<bar>" "\<bar>x\<bar> < 2 powi (expo \<bar>x\<bar> + 1)"
    using expo_bracket [OF pos] by simp_all
  have lt: "(2::real) powi (- 1022) < 2 powi (expo \<bar>x\<bar> + 1)"
    using assms br(2) by linarith
  have "\<not> expo \<bar>x\<bar> + 1 \<le> - 1022"
  proof
    assume "expo \<bar>x\<bar> + 1 \<le> - 1022"
    then have "(2::real) powi (expo \<bar>x\<bar> + 1) \<le> 2 powi (- 1022)"
      by (rule power_int_increasing) simp
    with lt show False by linarith
  qed
  then have m: "max (expo \<bar>x\<bar>) (- 1022) = expo \<bar>x\<bar>" by simp
  have "\<bar>rd x - x\<bar> \<le> 2 powi (expo \<bar>x\<bar> - 53)"
    using rd_abs_error [of x] by (simp add: m)
  also have "\<dots> = 2 powi expo \<bar>x\<bar> / 2 ^ 53"
    by (simp add: power_int_diff)
  also have "\<dots> \<le> \<bar>x\<bar> / 2 ^ 53"
    using br(1) by (simp add: divide_right_mono)
  finally show ?thesis .
qed


lemma rd_bound: "\<bar>rd x\<bar> \<le> 2 * \<bar>x\<bar> + 1"
proof (cases "- 1022 \<le> expo \<bar>x\<bar>")
  case True
  then have m: "max (expo \<bar>x\<bar>) (- 1022) = expo \<bar>x\<bar>" by simp
  show ?thesis
  proof (cases "x = 0")
    case True
    then show ?thesis by (simp add: rd_0)
  next
    case False
    then have pos: "0 < \<bar>x\<bar>" by simp
    have "\<bar>rd x - x\<bar> \<le> 2 powi (expo \<bar>x\<bar> - 53)"
      using rd_abs_error [of x] by (simp add: m)
    also have "\<dots> \<le> 2 powi expo \<bar>x\<bar>"
      by (rule power_int_increasing) simp_all
    also have "\<dots> \<le> \<bar>x\<bar>" using expo_bracket [OF pos] by simp
    finally show ?thesis by linarith
  qed
next
  case False
  then have m: "max (expo \<bar>x\<bar>) (- 1022) = - 1022" by simp
  have "\<bar>rd x - x\<bar> \<le> 2 powi (- 1022 - 53)"
    using rd_abs_error [of x] by (simp only: m)
  also have "\<dots> \<le> 2 powi 0"
    by (rule power_int_increasing) simp_all
  finally show ?thesis by simp
qed

lemma rd_rel15:
  assumes "1 / 1000000000 \<le> \<bar>x\<bar>"
  shows "\<bar>rd x - x\<bar> \<le> \<bar>x\<bar> / 1000000000000000"
proof -
  have "(2::real) powi (- 1022) \<le> 2 powi (- 30)"
    by (rule power_int_increasing) simp_all
  also have "\<dots> \<le> 1 / 1000000000" by simp
  finally have "2 powi (- 1022) \<le> \<bar>x\<bar>" using assms by linarith
  then have "\<bar>rd x - x\<bar> \<le> \<bar>x\<bar> / 2 ^ 53" by (rule rd_rel)
  also have "\<dots> \<le> \<bar>x\<bar> / 1000000000000000"
    by (intro divide_left_mono) simp_all
  finally show ?thesis .
qed

lemma rd_near:
  assumes "\<bar>x\<bar> \<le> 100000000"
  shows "\<bar>rd x - x\<bar> \<le> 1 / 10000000"
proof (cases "1 / 1000000000 \<le> \<bar>x\<bar>")
  case True
  then have "\<bar>rd x - x\<bar> \<le> \<bar>x\<bar> / 1000000000000000" by (rule rd_rel15)
  also have "\<dots> \<le> 100000000 / 1000000000000000"
    using assms by (intro divide_right_mono) simp_all
  also have "\<dots> \<le> 1 / 10000000" by simp
  finally show ?thesis .
next
  case False
  then have small: "\<bar>x\<bar> < 1 / 1000000000" by simp
  have e: "max (expo \<bar>x\<bar>) (- 1022) \<le> 0"
  proof (cases "x = 0")
    case True
    then show ?thesis by (simp add: expo.simps)
  next
    case False
    then have pos: "0 < \<bar>x\<bar>" by simp
    have "\<not> 1 \<le> expo \<bar>x\<bar>"
    proof
      assume "1 \<le> expo \<bar>x\<bar>"
      then have "(2::real) powi 1 \<le> 2 powi expo \<bar>x\<bar>"
        by (rule power_int_increasing) simp
      with expo_bracket [OF pos] small show False by simp
    qed
    then show ?thesis by simp
  qed
  have "\<bar>rd x - x\<bar> \<le> 2 powi (max (expo \<bar>x\<bar>) (- 1022) - 53)" by (rule rd_abs_error)
  also have "\<dots> \<le> 2 powi (- 53)"
    using e by (intro power_int_increasing) simp_all
  also have "\<dots> \<le> 1 / 10000000" by simp
  finally show ?thesis .
qed

lemma fl_Fin:
  assumes "\<bar>x\<bar> \<le> 100000000"
  shows "fl x = Fin (rd x)"
proof -
  have "\<bar>rd x\<bar> \<le> 2 * \<bar>x\<bar> + 1" by (rule rd_bound)
  then have "\<bar>rd x\<bar> \<le> 200000001" using assms by linarith
  moreover have "(200000001 :: real) < 2 ^ 1024" by simp
  ultimately have "\<not> 2 ^ 1024 \<le> rd x" "\<not> rd x \<le> - (2 ^ 1024)" by linarith+
  then show ?thesis by (simp add: fl_def Let_def)
qed

lemma abs_near:
  "\<bar>y - x\<bar> \<le> e \<Longrightarrow> \<bar>x\<bar> - e \<le> \<bar>y\<bar> \<and> \<bar>y\<bar> \<le> \<bar>x\<bar> + (e::real)"
  by linarith

lemma rd_close:
  assumes "- 100000000 \<le> x" "x \<le> 100000000"
  shows "x - 1 / 10000000 \<le> rd x" and "rd x \<le> x + 1 / 10000000"
proof -
  have "\<bar>x\<bar> \<le> 100000000" using assms by linarith
  then have "\<bar>rd x - x\<bar> \<le> 1 / 10000000" by (rule rd_near)
  then show "x - 1 / 10000000 \<le> rd x" and "rd x \<le> x + 1 / 10000000" by linarith+
qed

lemma fl_Fin_range:
  assumes "- 100000000 \<le> x" "x \<le> 100000000"
  shows "fl x = Fin (rd x)"
proof -
  have "\<bar>x\<bar> \<le> 100000000" using assms by linarith
  then show ?thesis by (rule fl_Fin)
qed

section \<open>Nutrition: basal metabolic rate\<close>

text \<open>
  The specification's two reference values of the basal metabolic rate, 1724.0 and 1264.0
  with a tolerance of 0.5, are not what the function returns for male, 70 kg, 175 cm, 30
  years and female, 60 kg, 160 cm, 30 years: both results are further than 0.5 away.
\<close>

theorem bmr_spec_values_counterexample:
  "\<not> \<bar>mifflin_st_jeor_bmr gender_male 70 175 30 - 1724\<bar> \<le> 0.5 \<and>
   \<not> \<bar>mifflin_st_jeor_bmr gender_female 60 160 30 - 1264\<bar> \<le> 0.5"
  by (simp add: mifflin_st_jeor_bmr_def gender_male_def gender_female_def)

text \<open>
  Claim C1, amended: for male, 70 kg, 175 cm, 30 years \<^verbatim>\<open>mifflin_st_jeor_bmr\<close> returns
  1648.75, and for female, 60 kg, 160 cm, 30 years it returns 1289; these are the values
  of the equation \<open>10 W + 6.25 H - 5 A + 5\<close> and of its variant with the offset
  \<open>- 161\<close>.
\<close>

theorem bmr_reference_values:
  "mifflin_st_jeor_bmr gender_male 70 175 30 = 1648.75 \<and>
   mifflin_st_jeor_bmr gender_female 60 160 30 = 1289"
  by (simp add: mifflin_st_jeor_bmr_def gender_male_def gender_female_def)

text \<open>
  Claim C10: for every gender string other than the male identifier, the empty string and
  any unknown category included, \<^verbatim>\<open>mifflin_st_jeor_bmr\<close> returns the value of the
  female equation (offset \<open>- 161\<close>). The function has no failing branch.
\<close>

theorem bmr_non_male_uses_female_offset:
  "gender \<noteq> gender_male \<Longrightarrow>
   mifflin_st_jeor_bmr gender weight_kg height_cm age =
     10 * weight_kg + 6.25 * height_cm - 5 * of_int age - 161"
  by (simp add: mifflin_st_jeor_bmr_def)

theorem bmr_non_male_uses_female_offset_witness:
  "[] \<noteq> gender_male \<and> mifflin_st_jeor_bmr [] 70 175 30 = 1482.75"
proof -
  have h: "[] \<noteq> gender_male" by (simp add: gender_male_def)
  show ?thesis
    using h bmr_non_male_uses_female_offset [OF h, of 70 175 30] by simp
qed

section \<open>Nutrition: body mass index\<close>

text \<open>
  With a height of zero the squared height is zero and the division fails. The correctly
  rounded square meets the requirement on the library's power.
\<close>

lemma calc_bmi_zero_height:
  "pow2_accurate pow2 \<Longrightarrow> calc_bmi pow2 weight_kg 0 = Inl ZeroDivisionError"
  by (simp add: calc_bmi_def fl_def rd_0 pow2_accurate_def)

lemma square_rounded_accurate: "pow2_accurate square_rounded"
  unfolding pow2_accurate_def
proof (intro conjI allI impI)
  show "square_rounded 0 = Fin 0" by (simp add: square_rounded_def fl_def rd_0)
next
  fix x :: real
  assume a: "1 / 1000000000 \<le> x * x \<and> x * x \<le> 100000000"
  then have "\<bar>x * x\<bar> \<le> 100000000" and b: "1 / 1000000000 \<le> \<bar>x * x\<bar>" by simp_all
  then have "square_rounded x = Fin (rd (x * x))"
    unfolding square_rounded_def by (intro fl_Fin)
  moreover have "\<bar>rd (x * x) - x * x\<bar> \<le> \<bar>x * x\<bar> / 1000000000000000"
    using b by (rule rd_rel15)
  ultimately show "\<exists>y. square_rounded x = Fin y \<and> \<bar>y - x * x\<bar> \<le> x * x / 1000000000000000"
    by simp
qed

text \<open>
  For a weight of magnitude up to 1000 and a height of magnitude between 1 and 1000 no
  step fails, underflows or overflows, and the rounding errors of the steps stay far
  below the distance between two-decimal numbers.
\<close>

lemma calc_bmi_in_range:
  assumes pw: "pow2_accurate pow2"
    and w: "\<bar>w\<bar> \<le> 1000" and h: "1 \<le> \<bar>h\<bar>" "\<bar>h\<bar> \<le> 1000"
  shows "\<exists>v k. calc_bmi pow2 w h = Inr (Fin v) \<and> v = rd (of_int k / 100) \<and>
           \<bar>v - w / (h / 100) ^ 2\<bar> \<le> 0.0051"
proof -
  define H where "H = h / 100"
  define hm where "hm = rd H"
  define A where "A = H ^ 2"
  define S where "S = hm * hm"
  define X where "X = w / A"
  have H: "1 / 100 \<le> \<bar>H\<bar>" "\<bar>H\<bar> \<le> 10"
    using h by (simp_all add: H_def)
  have H9: "1 / 1000000000 \<le> \<bar>H\<bar>" using H(1) by linarith
  have hmH: "\<bar>hm - H\<bar> \<le> \<bar>H\<bar> / 1000000000000000"
    unfolding hm_def using H9 by (rule rd_rel15)
  have ahm: "(999999999999999 / 1000000000000000) * \<bar>H\<bar> \<le> \<bar>hm\<bar>" "\<bar>hm\<bar> \<le> (1000000000000001 / 1000000000000000) * \<bar>H\<bar>"
    using abs_near [OF hmH] by linarith+
  have A_abs: "A = \<bar>H\<bar> ^ 2" by (simp add: A_def)
  have S_abs: "S = \<bar>hm\<bar> ^ 2" by (simp add: S_def power2_eq_square)
  have A: "1 / 10000 \<le> A" "A \<le> 100"
  proof -
    have "(1 / 100) ^ 2 \<le> \<bar>H\<bar> ^ 2" using H by (intro power_mono) simp_all
    then show "1 / 10000 \<le> A" by (simp add: A_abs power2_eq_square)
    have "\<bar>H\<bar> ^ 2 \<le> 10 ^ 2" using H by (intro power_mono) simp_all
    then show "A \<le> 100" by (simp add: A_abs)
  qed
  have S1: "(999999999999997 / 1000000000000000) * A \<le> S"
  proof -
    have "((999999999999999 / 1000000000000000) * \<bar>H\<bar>) ^ 2 \<le> \<bar>hm\<bar> ^ 2"
      using ahm(1) by (intro power_mono) simp_all
    then have "(999999999999999 / 1000000000000000) ^ 2 * A \<le> S"
      by (simp only: power_mult_distrib A_abs S_abs)
    moreover have "(999999999999997 / 1000000000000000) \<le> ((999999999999999 / 1000000000000000) ^ 2 :: real)"
      by (simp add: power2_eq_square)
    then have "(999999999999997 / 1000000000000000) * A \<le> (999999999999999 / 1000000000000000) ^ 2 * A"
      using A(1) by (intro mult_right_mono) simp_all
    ultimately show ?thesis by linarith
  qed
  have S2: "S \<le> (1000000000000003 / 1000000000000000) * A"
  proof -
    have "\<bar>hm\<bar> ^ 2 \<le> ((1000000000000001 / 1000000000000000) * \<bar>H\<bar>) ^ 2"
      using ahm(2) by (intro power_mono) simp_all
    then have "S \<le> (1000000000000001 / 1000000000000000) ^ 2 * A"
      by (simp only: power_mult_distrib A_abs S_abs)
    moreover have "((1000000000000001 / 1000000000000000) ^ 2 :: real) \<le> (1000000000000003 / 1000000000000000)"
      by (simp add: power2_eq_square)
    then have "(1000000000000001 / 1000000000000000) ^ 2 * A \<le> (1000000000000003 / 1000000000000000) * A"
      using A(1) by (intro mult_right_mono) simp_all
    ultimately show ?thesis by linarith
  qed
  have Spos: "1 / 1000000000 \<le> \<bar>S\<bar>" "\<bar>S\<bar> \<le> 100000000"
    using S1 S2 A by linarith+
  have Sr: "1 / 1000000000 \<le> hm * hm \<and> hm * hm \<le> 100000000"
    using Spos S1 A unfolding S_def by linarith
  obtain sq where f2: "pow2 hm = Fin sq" and sqS0: "\<bar>sq - hm * hm\<bar> \<le> hm * hm / 1000000000000000"
    using pw Sr unfolding pow2_accurate_def by blast
  have sqS: "\<bar>sq - S\<bar> \<le> S / 1000000000000000"
    using sqS0 unfolding S_def .
  define Q where "Q = w / sq"
  define q where "q = rd Q"
  define r where "r = py_round2 q"
  define v where "v = rd r"
  have sq: "(999999999999995 / 1000000000000000) * A \<le> sq" "sq \<le> (1000000000000005 / 1000000000000000) * A"
    using sqS S1 S2 A by linarith+
  have sq_lo: "9 / 100000 \<le> sq" and sq_hi: "sq \<le> 101"
    using sq A by linarith+
  have sq0: "sq \<noteq> 0" and A0: "A \<noteq> 0" and Apos: "0 < A" using sq_lo A by linarith+
  have diff: "\<bar>A - sq\<bar> \<le> 5 / 1000000000000000 * A"
    using sq by linarith
  have "Q - X = w * ((A - sq) / A) / sq"
    using sq0 A0 by (simp add: Q_def X_def field_simps)
  then have "\<bar>Q - X\<bar> = \<bar>w\<bar> * (\<bar>A - sq\<bar> / A) / sq"
    using sq_lo Apos by (simp add: abs_mult)
  also have "\<dots> \<le> 1000 * (5 / 1000000000000000) / (9 / 100000)"
  proof -
    have "\<bar>A - sq\<bar> / A \<le> (5 / 1000000000000000 * A) / A"
      using diff Apos by (intro divide_right_mono) simp_all
    then have k1: "\<bar>A - sq\<bar> / A \<le> 5 / 1000000000000000"
      using Apos by simp
    have k0: "0 \<le> \<bar>A - sq\<bar> / A" using Apos by simp
    have k2: "\<bar>w\<bar> * (\<bar>A - sq\<bar> / A) \<le> 1000 * (5 / 1000000000000000)"
      using w k1 k0 by (intro mult_mono) simp_all
    show ?thesis
      using k2 sq_lo by (intro frac_le) simp_all
  qed
  also have "\<dots> \<le> 1 / 10000000" by simp
  finally have QX: "\<bar>Q - X\<bar> \<le> 1 / 10000000" .
  have "\<bar>Q\<bar> = \<bar>w\<bar> / sq" using sq_lo by (simp add: Q_def)
  also have "\<dots> \<le> 1000 / (9 / 100000)"
    using w sq_lo by (intro frac_le) simp_all
  also have "\<dots> \<le> 20000000" by simp
  finally have Qb: "\<bar>Q\<bar> \<le> 20000000" .
  then have Qb8: "\<bar>Q\<bar> \<le> 100000000" by linarith
  have qQ: "\<bar>q - Q\<bar> \<le> 1 / 10000000" unfolding q_def using Qb8 by (rule rd_near)
  have "\<bar>of_int (py_round (q * 100)) - q * 100\<bar> \<le> 1 / 2" by (rule py_round_error)
  then have rq: "\<bar>r - q\<bar> \<le> 1 / 200"
    by (simp add: r_def py_round2_def field_simps)
  have rb: "\<bar>r\<bar> \<le> 100000000" using rq qQ Qb by linarith
  have vr: "\<bar>v - r\<bar> \<le> 1 / 10000000" unfolding v_def using rb by (rule rd_near)
  have close: "\<bar>v - X\<bar> \<le> 51 / 10000" using vr rq qQ QX by linarith
  have Hb8: "\<bar>H\<bar> \<le> 100000000" using H(2) by linarith
  have f1: "fl (h / 100) = Fin hm"
    unfolding hm_def H_def [symmetric] using Hb8 by (rule fl_Fin)
  have f3: "fl (w / sq) = Fin q"
    unfolding q_def Q_def [symmetric] using Qb8 by (rule fl_Fin)
  have f4: "fl (py_round2 q) = Fin v"
    unfolding v_def r_def [symmetric] using rb by (rule fl_Fin)
  have "calc_bmi pow2 w h = Inr (Fin v)"
    by (simp add: calc_bmi_def f1 f2 f3 f4 sq0)
  moreover have "X = w / (h / 100) ^ 2" by (simp add: X_def A_def H_def)
  moreover have "v = rd (of_int (py_round (q * 100)) / 100)"
    by (simp add: v_def r_def py_round2_def)
  ultimately show ?thesis using close by auto
qed

text \<open>
  At 56 kg and 160 cm the exact quotient is 21.875; the squared height is rounded up, the
  floating-point quotient lies just below 21.875, and the result is 21.87.
\<close>

lemma calc_bmi_tie_example: "calc_bmi square_rounded 56 160 = Inr (Fin (rd 21.87))"
  by (simp add: calc_bmi_def square_rounded_def fl_def rd_def Let_def expo.simps py_round_def
      py_round2_def)

text \<open>
  \<^verbatim>\<open>calc_bmi\<close> does not reject a weight that is not positive: for -70 kg and 175 cm
  it returns the double nearest to -22.86.
\<close>

theorem calc_bmi_no_validation_counterexample:
  "(- 70 :: real) \<le> 0 \<and> calc_bmi square_rounded (- 70) 175 = Inr (Fin (rd (- 22.86)))"
  by (simp add: calc_bmi_def square_rounded_def fl_def rd_def Let_def expo.simps py_round_def
      py_round2_def)

text \<open>
  Claim C4, amended: \<^verbatim>\<open>calc_bmi\<close> validates nothing and has no validation error. With
  a height of zero it fails with \<^verbatim>\<open>ZeroDivisionError\<close>, whatever the weight. For every
  weight of magnitude up to 1000 kg, zero and negative weights included, and every height
  of magnitude between 1 and 1000 cm, negative heights included, it returns a two-decimal
  number (as a double) within 0.0051 of \<open>weight_kg / (height_cm / 100)\<^sup>2\<close>: the
  floating-point quotient rounded to two decimals.
\<close>

theorem calc_bmi_no_validation:
  assumes "pow2_accurate pow2"
  shows "calc_bmi pow2 weight_kg 0 = Inl ZeroDivisionError \<and>
         (\<bar>weight_kg\<bar> \<le> 1000 \<and> 1 \<le> \<bar>height_cm\<bar> \<and> \<bar>height_cm\<bar> \<le> 1000 \<longrightarrow>
            (\<exists>v k. calc_bmi pow2 weight_kg height_cm = Inr (Fin v) \<and>
                 v = rd (of_int k / 100) \<and>
                 \<bar>v - weight_kg / (height_cm / 100) ^ 2\<bar> \<le> 0.0051))"
  using assms calc_bmi_zero_height [of pow2 weight_kg]
    calc_bmi_in_range [of pow2 weight_kg height_cm] by blast

theorem calc_bmi_no_validation_witness:
  "pow2_accurate square_rounded \<and>
   \<bar>- 70 :: real\<bar> \<le> 1000 \<and> 1 \<le> \<bar>175 :: real\<bar> \<and> \<bar>175 :: real\<bar> \<le> 1000 \<and>
   calc_bmi square_rounded (- 70) 0 = Inl ZeroDivisionError \<and>
   (\<exists>v k. calc_bmi square_rounded (- 70) 175 = Inr (Fin v) \<and>
        v = rd (of_int k / 100) \<and>
        \<bar>v - (- 70) / (175 / 100) ^ 2\<bar> \<le> 0.0051)"
proof -
  have h: "\<bar>- 70 :: real\<bar> \<le> 1000 \<and> 1 \<le> \<bar>175 :: real\<bar> \<and> \<bar>175 :: real\<bar> \<le> 1000" by simp
  show ?thesis
    using h square_rounded_accurate
      calc_bmi_no_validation [OF square_rounded_accurate, of "- 70" 175]
    by blast
qed

section \<open>Nutrition: activity factor\<close>

text \<open>
  Claim C9: \<^verbatim>\<open>activity_factor\<close> maps the five levels of the table to 1.2, 1.375,
  1.55, 1.725 and 1.9, and every other string to 1.2; it never fails.
\<close>

theorem activity_factor_table:
  "activity_factor level_low = 1.2 \<and>
   activity_factor level_fairly_low = 1.375 \<and>
   activity_factor level_normal = 1.55 \<and>
   activity_factor level_high = 1.725 \<and>
   activity_factor level_very_high = 1.9 \<and>
   (level \<notin> {level_low, level_fairly_low, level_normal, level_high, level_very_high}
      \<longrightarrow> activity_factor level = 1.2)"
  by (simp add: activity_factor_def activity_mapping_def level_low_def level_fairly_low_def
      level_normal_def level_high_def level_very_high_def)

text \<open>The witness is the ASCII string \<^verbatim>\<open>unknown\<close>.\<close>

theorem activity_factor_table_witness:
  "[117, 110, 107, 110, 111, 119, 110] \<notin>
      {level_low, level_fairly_low, level_normal, level_high, level_very_high} \<and>
   activity_factor [117, 110, 107, 110, 111, 119, 110] = 1.2"
proof -
  have h: "[117, 110, 107, 110, 111, 119, 110] \<notin>
      {level_low, level_fairly_low, level_normal, level_high, level_very_high}"
    by (simp add: level_low_def level_fairly_low_def
      level_normal_def level_high_def level_very_high_def)
  show ?thesis
    using h activity_factor_table [of "[117, 110, 107, 110, 111, 119, 110]"] by blast
qed

section \<open>Nutrition: macro plan\<close>

text \<open>
  Claim C6: for every weight, calorie target and goal, \<^verbatim>\<open>macro_plan\<close> returns as
  protein the rounded \<open>1.8 * weight_kg\<close>, as fat the rounded quarter of the calories
  divided by 9, and a carbohydrate value that is never negative, also when protein and
  fat together exceed the calorie target.
\<close>

theorem macro_plan_values:
  "fst (macro_plan weight_kg calories goal) = py_round (1.8 * weight_kg) \<and>
   fst (snd (macro_plan weight_kg calories goal)) = py_round (calories * 0.25 / 9) \<and>
   0 \<le> snd (snd (macro_plan weight_kg calories goal))"
  by (simp add: macro_plan_def Let_def py_round_nonneg)

text \<open>
  An input where protein (720 kcal) and fat (225 kcal) exceed the target of 900 kcal: the
  carbohydrate value is zero.
\<close>

lemma macro_plan_clamped_example:
  "macro_plan 100 900 goal = (180, 25, 0)"
  by (simp add: macro_plan_def Let_def py_round_def)

section \<open>The assessment of the form\<close>

text \<open>
  Bounds along the handler, for inputs in the ranges of the form. Every activity factor
  lies between 1.2 and 1.9; the basal metabolic rate is at least \<open>10 * weight_kg + 88\<close>;
  a goal keeps at least 84.9% of the expenditure, up to the rounding.
\<close>

lemma activity_factor_range: "1.2 \<le> activity_factor level \<and> activity_factor level \<le> 1.9"
  by (simp add: activity_factor_def activity_mapping_def)

lemma bmr_float_bounds:
  assumes w: "30 \<le> w" "w \<le> 200" and h: "120 \<le> h" "h \<le> 220"
    and a: "10 \<le> age" "age \<le> 100"
  shows "\<exists>b. mifflin_st_jeor_bmr_float gender w h age = Fin b \<and>
           10 * w + 88 \<le> b \<and> b \<le> 3400"
proof -
  define t1 where "t1 = rd (10 * w)"
  define t2 where "t2 = rd (6.25 * h)"
  define t3 where "t3 = rd (t1 + t2)"
  define a5 where "a5 = rd (of_int (5 * age))"
  define t4 where "t4 = rd (t3 + - a5)"
  define bm where "bm = rd (t4 + 5)"
  define bf where "bf = rd (t4 + - 161)"
  have ar: "50 \<le> (of_int (5 * age) :: real)" "(of_int (5 * age) :: real) \<le> 500"
    using a by simp_all
  have b1: "\<bar>10 * w\<bar> \<le> 100000000" using w by linarith
  have e1: "\<bar>t1 - 10 * w\<bar> \<le> 1 / 10000000" unfolding t1_def using b1 by (rule rd_near)
  have b2: "\<bar>6.25 * h\<bar> \<le> 100000000" using h by simp
  have e2: "\<bar>t2 - 6.25 * h\<bar> \<le> 1 / 10000000" unfolding t2_def using b2 by (rule rd_near)
  have hh: "750 \<le> 6.25 * h" "6.25 * h \<le> 1375" using h by simp_all
  have b3: "\<bar>t1 + t2\<bar> \<le> 100000000" using e1 e2 w hh by linarith
  have e3: "\<bar>t3 - (t1 + t2)\<bar> \<le> 1 / 10000000" unfolding t3_def using b3 by (rule rd_near)
  have b5: "\<bar>of_int (5 * age) :: real\<bar> \<le> 100000000" using ar by linarith
  have e5: "\<bar>a5 - of_int (5 * age)\<bar> \<le> 1 / 10000000" unfolding a5_def using b5 by (rule rd_near)
  have b4: "\<bar>t3 + - a5\<bar> \<le> 100000000" using e1 e2 e3 e5 w hh ar by linarith
  have e4: "\<bar>t4 - (t3 + - a5)\<bar> \<le> 1 / 10000000" unfolding t4_def using b4 by (rule rd_near)
  have b6: "\<bar>t4 + 5\<bar> \<le> 100000000" using e1 e2 e3 e4 e5 w hh ar by linarith
  have e6: "\<bar>bm - (t4 + 5)\<bar> \<le> 1 / 10000000" unfolding bm_def using b6 by (rule rd_near)
  have b7: "\<bar>t4 + - 161\<bar> \<le> 100000000" using e1 e2 e3 e4 e5 w hh ar by linarith
  have e7: "\<bar>bf - (t4 + - 161)\<bar> \<le> 1 / 10000000" unfolding bf_def using b7 by (rule rd_near)
  have t4_lo: "10 * w + 250 - 1 / 1000000 \<le> t4" and t4_hi: "t4 \<le> 3326"
    using e1 e2 e3 e4 e5 w hh ar by linarith+
  have f1: "fl (10 * w) = Fin t1" unfolding t1_def using b1 by (rule fl_Fin)
  have f2: "fl (6.25 * h) = Fin t2" unfolding t2_def using b2 by (rule fl_Fin)
  have f3: "fl (t1 + t2) = Fin t3" unfolding t3_def using b3 by (rule fl_Fin)
  have f5: "fl (of_int (5 * age)) = Fin a5" unfolding a5_def using b5 by (rule fl_Fin)
  have f4: "fl (t3 + - a5) = Fin t4" unfolding t4_def using b4 by (rule fl_Fin)
  have f6: "fl (t4 + 5) = Fin bm" unfolding bm_def using b6 by (rule fl_Fin)
  have f7: "fl (t4 + - 161) = Fin bf" unfolding bf_def using b7 by (rule fl_Fin)
  have t: "fsub (fadd (fmul (Fin 10) (Fin w)) (fmul (Fin 6.25) (Fin h))) (int_float (5 * age))
             = Fin t4"
    by (simp only: fmul.simps f1 f2 fadd.simps f3 int_float_def f5 fsub_def fneg.simps f4)
  show ?thesis
  proof (cases "gender = gender_male")
    case True
    have "mifflin_st_jeor_bmr_float gender w h age = Fin bm"
      unfolding mifflin_st_jeor_bmr_float_def t Let_def using True
      by (simp only: simp_thms if_True fadd.simps f6)
    moreover have "10 * w + 88 \<le> bm" "bm \<le> 3400" using e6 t4_lo t4_hi by linarith+
    ultimately show ?thesis by blast
  next
    case False
    have "mifflin_st_jeor_bmr_float gender w h age = Fin bf"
      unfolding mifflin_st_jeor_bmr_float_def t Let_def using False
      by (simp only: simp_thms if_False fsub_def fneg.simps fadd.simps f7)
    moreover have "10 * w + 88 \<le> bf" "bf \<le> 3400" using e7 t4_lo t4_hi by linarith+
    ultimately show ?thesis by blast
  qed
qed

lemma fdiv_by_9: "fdiv (Fin a) (Fin 9) = Inr (fl (a / 9))"
  by simp

lemma fdiv_by_4: "fdiv (Fin a) (Fin 4) = Inr (fl (a / 4))"
  by simp

lemma scaled_round_bounds:
  assumes t: "0 \<le> t" "t \<le> 1000000" and m: "85 / 100 \<le> m" "m \<le> 110 / 100"
  shows "\<exists>c. fround (fmul (Fin t) (lit m)) = Inr c \<and>
           849 / 1000 * t - 1 \<le> of_int c \<and> of_int c \<le> 1101 / 1000 * t + 1"
proof -
  define m' where "m' = rd m"
  define y where "y = rd (t * m')"
  have mr: "- 100000000 \<le> m" "m \<le> 100000000" using m by linarith+
  have m': "m - 1 / 10000000 \<le> m'" "m' \<le> m + 1 / 10000000"
    unfolding m'_def using mr by (rule rd_close)+
  have lo: "t * (849 / 1000) \<le> t * m'"
    using t m m' by (intro mult_left_mono) linarith+
  have hi: "t * m' \<le> t * (1101 / 1000)"
    using t m m' by (intro mult_left_mono) linarith+
  have pr: "- 100000000 \<le> t * m'" "t * m' \<le> 100000000" using lo hi t by linarith+
  have y: "t * m' - 1 / 10000000 \<le> y" "y \<le> t * m' + 1 / 10000000"
    unfolding y_def using pr by (rule rd_close)+
  have f1: "fl m = Fin m'" unfolding m'_def using mr by (rule fl_Fin_range)
  have f2: "fl (t * m') = Fin y" unfolding y_def using pr by (rule fl_Fin_range)
  have "fround (fmul (Fin t) (lit m)) = Inr (py_round y)"
    by (simp only: lit_def f1 fmul.simps f2 fround.simps)
  moreover have "849 / 1000 * t - 1 \<le> of_int (py_round y)"
    using py_round_lower [of y] y lo by linarith
  moreover have "of_int (py_round y) \<le> 1101 / 1000 * t + 1"
    using py_round_upper [of y] y hi by linarith
  ultimately show ?thesis by blast
qed

lemma target_calories_bounds:
  assumes t: "0 \<le> t" "t \<le> 1000000"
  shows "\<exists>c. target_calories_from_goal (Fin t) goal = Inr c \<and>
           849 / 1000 * t - 1 \<le> of_int c \<and> of_int c \<le> 1101 / 1000 * t + 1"
proof -
  have plain: "\<exists>c. fround (Fin t) = Inr c \<and>
           849 / 1000 * t - 1 \<le> of_int c \<and> of_int c \<le> 1101 / 1000 * t + 1"
  proof -
    have "849 / 1000 * t - 1 \<le> of_int (py_round t)"
      using py_round_lower [of t] t by linarith
    moreover have "of_int (py_round t) \<le> 1101 / 1000 * t + 1"
      using py_round_upper [of t] t by linarith
    ultimately show ?thesis by simp
  qed
  have s1: "\<exists>c. fround (fmul (Fin t) (lit 0.85)) = Inr c \<and>
           849 / 1000 * t - 1 \<le> of_int c \<and> of_int c \<le> 1101 / 1000 * t + 1"
    using t by (intro scaled_round_bounds) simp_all
  have s2: "\<exists>c. fround (fmul (Fin t) (lit 0.90)) = Inr c \<and>
           849 / 1000 * t - 1 \<le> of_int c \<and> of_int c \<le> 1101 / 1000 * t + 1"
    using t by (intro scaled_round_bounds) simp_all
  have s3: "\<exists>c. fround (fmul (Fin t) (lit 1.10)) = Inr c \<and>
           849 / 1000 * t - 1 \<le> of_int c \<and> of_int c \<le> 1101 / 1000 * t + 1"
    using t by (intro scaled_round_bounds) simp_all
  show ?thesis
    unfolding target_calories_from_goal_def using plain s1 s2 s3
    by (simp only: split: if_split) blast
qed

text \<open>
  The energy balance of the macro plan in floating point, for a calorie target of at
  least \<open>10 * weight_kg + 80\<close>: protein and fat stay below the target, the carbohydrate
  remainder is positive, and the errors of the floating-point operations are too small to
  move the integer \<open>4 p + 9 f + 4 c - calories\<close> beyond the 8.5 that the three roundings
  to integers allow.
\<close>

lemma macro_plan_float_balance:
  assumes w: "30 \<le> w" "w \<le> 200"
    and c: "10 * w + 80 \<le> of_int cal" "(of_int cal :: real) \<le> 10000"
  shows "\<exists>p f c. macro_plan_float w cal goal = Inr (p, f, c) \<and>
           \<bar>of_int p * 4 + of_int f * 9 + of_int c * 4 - (of_int cal :: real)\<bar> \<le> 8.5"
proof -
  define C :: real where "C = of_int cal"
  define c18 where "c18 = rd 1.8"
  define pg where "pg = rd (c18 * w)"
  define cf where "cf = rd C"
  define fk where "fk = rd (cf * 0.25)"
  define fg where "fg = rd (fk / 9)"
  define pk where "pk = rd (pg * 4)"
  define s where "s = rd (pk + fk)"
  define d where "d = rd (cf + - s)"
  define cg where "cg = rd (d / 4)"
  define p where "p = py_round pg"
  define f where "f = py_round fg"
  define g where "g = py_round cg"
  have C: "10 * w + 80 \<le> C" "C \<le> 10000" using c by (simp_all add: C_def)
  have r18: "- 100000000 \<le> (1.8::real)" "(1.8::real) \<le> 100000000" by simp_all
  have c18: "18 / 10 - 1 / 10000000 \<le> c18" "c18 \<le> 18 / 10 + 1 / 10000000"
    using rd_close [OF r18] by (simp_all add: c18_def)
  have pw_lo: "17999999 / 10000000 * w \<le> c18 * w"
    using c18 w by (intro mult_right_mono) linarith+
  have pw_hi: "c18 * w \<le> 18000001 / 10000000 * w"
    using c18 w by (intro mult_right_mono) linarith+
  have rpw: "- 100000000 \<le> c18 * w" "c18 * w \<le> 100000000"
    using pw_lo pw_hi w by linarith+
  have pg: "c18 * w - 1 / 10000000 \<le> pg" "pg \<le> c18 * w + 1 / 10000000"
    unfolding pg_def using rpw by (rule rd_close)+
  have pg_lo: "18 / 10 * w - 1 / 10000 \<le> pg" and pg_hi: "pg \<le> 18 / 10 * w + 1 / 10000"
    using pg pw_lo pw_hi w by linarith+
  have rC: "- 100000000 \<le> C" "C \<le> 100000000" using C w by linarith+
  have cf: "C - 1 / 10000000 \<le> cf" "cf \<le> C + 1 / 10000000"
    unfolding cf_def using rC by (rule rd_close)+
  have q4: "cf * 0.25 = cf / 4" by simp
  have rfk: "- 100000000 \<le> cf * 0.25" "cf * 0.25 \<le> 100000000"
    unfolding q4 using cf C w by linarith+
  have fk0: "cf * 0.25 - 1 / 10000000 \<le> fk" "fk \<le> cf * 0.25 + 1 / 10000000"
    unfolding fk_def using rfk by (rule rd_close)+
  have fk: "cf / 4 - 1 / 10000000 \<le> fk" "fk \<le> cf / 4 + 1 / 10000000"
    using fk0 unfolding q4 by linarith+
  have rfg: "- 100000000 \<le> fk / 9" "fk / 9 \<le> 100000000"
    using fk cf C w by linarith+
  have fg: "fk / 9 - 1 / 10000000 \<le> fg" "fg \<le> fk / 9 + 1 / 10000000"
    unfolding fg_def using rfg by (rule rd_close)+
  have fg_lo: "C / 36 - 1 / 10000 \<le> fg" and fg_hi: "fg \<le> C / 36 + 1 / 10000"
    using fg fk cf by linarith+
  have rpk: "- 100000000 \<le> pg * 4" "pg * 4 \<le> 100000000"
    using pg_lo pg_hi w by linarith+
  have pk: "pg * 4 - 1 / 10000000 \<le> pk" "pk \<le> pg * 4 + 1 / 10000000"
    unfolding pk_def using rpk by (rule rd_close)+
  have rs: "- 100000000 \<le> pk + fk" "pk + fk \<le> 100000000"
    using pk pg_lo pg_hi fk cf C w by linarith+
  have s: "pk + fk - 1 / 10000000 \<le> s" "s \<le> pk + fk + 1 / 10000000"
    unfolding s_def using rs by (rule rd_close)+
  have rd': "- 100000000 \<le> cf + - s" "cf + - s \<le> 100000000"
    using s pk pg_lo pg_hi fk cf C w by linarith+
  have d: "cf + - s - 1 / 10000000 \<le> d" "d \<le> cf + - s + 1 / 10000000"
    unfolding d_def using rd' by (rule rd_close)+
  have d_lo: "3 / 4 * C - 72 / 10 * w - 1 / 1000 \<le> d"
    and d_hi: "d \<le> 3 / 4 * C - 72 / 10 * w + 1 / 1000"
    using d s pk pg_lo pg_hi fk cf by linarith+
  have dpos: "0 < d" using d_lo C w by linarith
  have rcg: "- 100000000 \<le> d / 4" "d / 4 \<le> 100000000"
    using d_lo d_hi C w by linarith+
  have cg: "d / 4 - 1 / 10000000 \<le> cg" "cg \<le> d / 4 + 1 / 10000000"
    unfolding cg_def using rcg by (rule rd_close)+
  have pl: "pg - 1 / 2 \<le> of_int p" and pu: "of_int p \<le> pg + 1 / 2"
    unfolding p_def by (rule py_round_lower, rule py_round_upper)
  have fl': "fg - 1 / 2 \<le> of_int f" and fu: "of_int f \<le> fg + 1 / 2"
    unfolding f_def by (rule py_round_lower, rule py_round_upper)
  have gl: "cg - 1 / 2 \<le> of_int g" and gu: "of_int g \<le> cg + 1 / 2"
    unfolding g_def by (rule py_round_lower, rule py_round_upper)
  define k where "k = p * 4 + f * 9 + g * 4 - cal"
  have kr: "(of_int k :: real) = of_int p * 4 + of_int f * 9 + of_int g * 4 - C"
    by (simp add: k_def C_def)
  have "- 9 < (of_int k :: real)" "(of_int k :: real) < 9"
    unfolding kr using pl pu fl' fu gl gu cg d_lo d_hi fg_lo fg_hi pg_lo pg_hi by linarith+
  then have "- 9 < k" "k < 9" by linarith+
  then have "- 8 \<le> k" "k \<le> 8" by linarith+
  then have "- 8 \<le> (of_int k :: real)" "(of_int k :: real) \<le> 8" by linarith+
  then have bal: "\<bar>of_int p * 4 + of_int f * 9 + of_int g * 4 - C\<bar> \<le> 85 / 10"
    unfolding kr by linarith
  have f18: "fl 1.8 = Fin c18" unfolding c18_def using r18 by (rule fl_Fin_range)
  have fpg: "fl (c18 * w) = Fin pg" unfolding pg_def using rpw by (rule fl_Fin_range)
  have fcf: "fl (of_int cal) = Fin cf"
    unfolding cf_def C_def [symmetric] using rC by (rule fl_Fin_range)
  have ffk: "fl (cf * 0.25) = Fin fk" unfolding fk_def using rfk by (rule fl_Fin_range)
  have ffg: "fl (fk / 9) = Fin fg" unfolding fg_def using rfg by (rule fl_Fin_range)
  have fpk: "fl (pg * 4) = Fin pk" unfolding pk_def using rpk by (rule fl_Fin_range)
  have fs: "fl (pk + fk) = Fin s" unfolding s_def using rs by (rule fl_Fin_range)
  have fd: "fl (cf + - s) = Fin d" unfolding d_def using rd' by (rule fl_Fin_range)
  have fcg: "fl (d / 4) = Fin cg" unfolding cg_def using rcg by (rule fl_Fin_range)
  have "macro_plan_float w cal goal = Inr (p, f, g)"
    unfolding macro_plan_float_def Let_def
    by (simp only: lit_def f18 fmul.simps fpg int_float_def fcf ffk fdiv_by_9 ffg sum.case
        fpk fadd.simps fs fsub_def fneg.simps fd fmax0.simps dpos if_True fdiv_by_4 fcg
        fround.simps p_def f_def g_def)
  then show ?thesis using bal unfolding C_def by auto
qed

text \<open>
  Claim C5: for every input that the form can deliver (weight 30 to 200 kg, height 120 to
  220 cm, age 10 to 100 years, any gender, activity level and goal) the handler returns
  an assessment, and the macros of the assessment satisfy
  \<open>\<bar>4 * protein_g + 9 * fat_g + 4 * carbs_g - target_calories\<bar> \<le> 8.5\<close>, the sum of the
  three rounding errors \<open>4 / 2 + 9 / 2 + 4 / 2\<close>.
\<close>

theorem assessment_energy_balance:
  assumes pw: "pow2_accurate pow2"
    and w: "30 \<le> weight_kg" "weight_kg \<le> 200"
    and h: "120 \<le> height_cm" "height_cm \<le> 220"
    and a: "10 \<le> age" "age \<le> 100"
  shows "\<exists>a. run_assessment pow2 gender weight_kg height_cm age activity_level goal = Inr a \<and>
           \<bar>of_int (protein_g a) * 4 + of_int (fat_g a) * 9 + of_int (carbs_g a) * 4
              - (of_int (target_calories a) :: real)\<bar> \<le> 8.5"
proof -
  have "\<bar>weight_kg\<bar> \<le> 1000" "1 \<le> \<bar>height_cm\<bar>" "\<bar>height_cm\<bar> \<le> 1000"
    using w h by linarith+
  then obtain v k where bmi: "calc_bmi pow2 weight_kg height_cm = Inr (Fin v)"
    using calc_bmi_in_range [OF pw] by blast
  obtain b where b: "mifflin_st_jeor_bmr_float gender weight_kg height_cm age = Fin b"
    and b_lo: "10 * weight_kg + 88 \<le> b" and b_hi: "b \<le> 3400"
    using bmr_float_bounds [OF w h a] by blast
  define af where "af = activity_factor activity_level"
  define af' where "af' = rd af"
  define t where "t = rd (b * af')"
  have af: "12 / 10 \<le> af" "af \<le> 19 / 10"
    using activity_factor_range [of activity_level] by (simp_all add: af_def)
  have raf: "- 100000000 \<le> af" "af \<le> 100000000" using af by linarith+
  have af': "af - 1 / 10000000 \<le> af'" "af' \<le> af + 1 / 10000000"
    unfolding af'_def using raf by (rule rd_close)+
  have b0: "0 \<le> b" using b_lo w by linarith
  have lo: "b * (1199 / 1000) \<le> b * af'"
    using b0 af af' by (intro mult_left_mono) linarith+
  have hi: "b * af' \<le> b * (1901 / 1000)"
    using b0 af af' by (intro mult_left_mono) linarith+
  have rt: "- 100000000 \<le> b * af'" "b * af' \<le> 100000000"
    using lo hi b0 b_hi by linarith+
  have t: "b * af' - 1 / 10000000 \<le> t" "t \<le> b * af' + 1 / 10000000"
    unfolding t_def using rt by (rule rd_close)+
  have t_rng: "0 \<le> t" "t \<le> 1000000" using t lo hi b_lo b_hi w by linarith+
  have f1: "fl af = Fin af'" unfolding af'_def using raf by (rule fl_Fin_range)
  have f2: "fl (b * af') = Fin t" unfolding t_def using rt by (rule fl_Fin_range)
  have tdee: "fmul (Fin b) (lit (activity_factor activity_level)) = Fin t"
    unfolding af_def [symmetric] by (simp only: lit_def f1 fmul.simps f2)
  obtain c where tc: "target_calories_from_goal (Fin t) goal = Inr c"
    and c_lo: "849 / 1000 * t - 1 \<le> of_int c" and c_hi: "of_int c \<le> 1101 / 1000 * t + 1"
    using target_calories_bounds [OF t_rng] by blast
  have c1: "10 * weight_kg + 80 \<le> of_int c" using c_lo t lo b_lo w by linarith
  have c2: "(of_int c :: real) \<le> 10000" using c_hi t hi b_hi by linarith
  obtain p f g where mp: "macro_plan_float weight_kg c goal = Inr (p, f, g)"
    and bal: "\<bar>of_int p * 4 + of_int f * 9 + of_int g * 4 - (of_int c :: real)\<bar> \<le> 8.5"
    using macro_plan_float_balance [OF w c1 c2] by blast
  have "run_assessment pow2 gender weight_kg height_cm age activity_level goal =
          Inr \<lparr>bmi = Fin v, bmr = Fin b, tdee = Fin t, target_calories = c,
               protein_g = p, fat_g = f, carbs_g = g\<rparr>"
    unfolding run_assessment_def Let_def
    by (simp only: bmi sum.case b tdee tc mp prod.case)
  then show ?thesis using bal by simp
qed

theorem assessment_energy_balance_witness:
  "pow2_accurate square_rounded \<and>
   (30::real) \<le> 54.5 \<and> (54.5::real) \<le> 200 \<and> (120::real) \<le> 170 \<and> (170::real) \<le> 220 \<and>
   (10::int) \<le> 40 \<and> (40::int) \<le> 100 \<and>
   (\<exists>a. run_assessment square_rounded gender_male 54.5 170 40 level_low goal_bulk = Inr a \<and>
        \<bar>of_int (protein_g a) * 4 + of_int (fat_g a) * 9 + of_int (carbs_g a) * 4
           - (of_int (target_calories a) :: real)\<bar> \<le> 8.5)"
proof -
  have h: "(30::real) \<le> 54.5" "(54.5::real) \<le> 200" "(120::real) \<le> 170" "(170::real) \<le> 220"
    "(10::int) \<le> 40" "(40::int) \<le> 100" by simp_all
  show ?thesis
    using h square_rounded_accurate
      assessment_energy_balance [OF square_rounded_accurate h, of gender_male level_low goal_bulk]
    by blast
qed

text \<open>
  The assessment of one profile of the form (male, 54.5 kg, 170 cm, 40 years, lowest
  activity, bulk). The expenditure 1695 times the double of 1.10 is just above 1864.5,
  and the target is 1865.
\<close>

lemma run_assessment_bulk_example:
  "run_assessment square_rounded gender_male 54.5 170 40 level_low goal_bulk =
     Inr \<lparr>bmi = Fin (rd 18.86), bmr = Fin 1412.5, tdee = Fin 1695, target_calories = 1865,
          protein_g = 98, fat_g = 52, carbs_g = 252\<rparr>"
  by (simp add: run_assessment_def calc_bmi_def square_rounded_def
      mifflin_st_jeor_bmr_float_def target_calories_from_goal_def macro_plan_float_def
      activity_factor_def activity_mapping_def level_low_def goal_bulk_def goal_cut_def
      goal_mild_cut_def goal_maintain_def gender_male_def lit_def int_float_def fsub_def
      fl_def rd_def Let_def expo.simps py_round_def py_round2_def)

section \<open>Meal suggestions: slots and guide\<close>

text \<open>
  Breakfast, lunch and dinner are never empty: each of them falls back to the
  placeholder when no dish is left.
\<close>

lemma meal_slots_nonempty:
  "breakfast (meal_suggestions cal p f c prefs allergies goal) \<noteq> [] \<and>
   lunch (meal_suggestions cal p f c prefs allergies goal) \<noteq> [] \<and>
   dinner (meal_suggestions cal p f c prefs allergies goal) \<noteq> []"
  by (simp add: meal_suggestions_def Let_def py_or_def)

text \<open>
  Claim C2 says that every slot, the snack included, is non-empty. The snack slot is
  returned as \<^verbatim>\<open>snack[:1]\<close>, without the fallback of the three other slots: with the
  allergy entry edamame, which the one snack dish contains, the snack slot is the empty
  list.
\<close>

theorem snack_slot_empty_for_edamame:
  "snack (meal_suggestions 1666 117 46 195 [] edamame goal_maintain) = []"
  by (simp add: meal_suggestions_def Let_def edamame_def strip_def is_space_def ok_def
      lower_def snack_1_def)

text \<open>
  The coaching note is chosen by \<^verbatim>\<open>goal.startswith\<close> of \<open>cut_prefix\<close>. The goal
  "cut (-15 to 20%)" starts with it, and its guide carries the note for cutting.
\<close>

lemma cut_guide_has_cut_note:
  "startswith goal_cut cut_prefix \<and>
   contains (guide (meal_suggestions 1573 117 44 178 [] [] goal_cut)) note_cut \<and>
   \<not> contains (guide (meal_suggestions 1573 117 44 178 [] [] goal_cut)) note_bulk"
  by (simp add: meal_suggestions_def Let_def strip_def is_space_def goal_cut_def
      cut_prefix_def guide_1_def guide_2_def guide_3_def guide_4_def guide_5_def guide_6_def
      guide_7_def guide_8_def note_cut_def note_bulk_def prefs_empty_def avoid_none_def
      str_int_def str_nat.simps)

text \<open>
  Claim C3 says that the guide carries the note for cutting exactly for the two cut
  goals. The goal "mild cut (-10%)" begins with the word for "mild", not with
  \<open>cut_prefix\<close>: its guide carries the note for bulk and maintenance, and not the note
  for cutting.
\<close>

theorem mild_cut_guide_has_bulk_note:
  "\<not> startswith goal_mild_cut cut_prefix \<and>
   contains (guide (meal_suggestions 1666 117 46 195 [] [] goal_mild_cut)) note_bulk \<and>
   \<not> contains (guide (meal_suggestions 1666 117 46 195 [] [] goal_mild_cut)) note_cut"
  by (simp add: meal_suggestions_def Let_def strip_def is_space_def goal_mild_cut_def
      cut_prefix_def guide_1_def guide_2_def guide_3_def guide_4_def guide_5_def guide_6_def
      guide_7_def guide_8_def note_cut_def note_bulk_def prefs_empty_def avoid_none_def
      str_int_def str_nat.simps)

section \<open>Posture: geometry of level pairs\<close>

lemma atan2_level: "atan2 0 x = (if x < 0 then pi else 0)"
  by (simp add: atan2_def)

lemma line_angle_deg_level:
  "snd p1 = snd p2 \<Longrightarrow> line_angle_deg p1 p2 = (if fst p2 < fst p1 then 180 else 0)"
  by (simp add: line_angle_deg_def Let_def atan2_level degrees_def)

lemma hypot_level: "hypot x 0 = \<bar>x\<bar>"
  by (simp add: hypot_def)

lemma dist_points_level: "snd p1 = snd p2 \<Longrightarrow> dist_points p1 p2 = \<bar>fst p2 - fst p1\<bar>"
  by (simp add: dist_points_def hypot_level)

lemma dist_points_nonneg: "0 \<le> dist_points p1 p2"
  by (simp add: dist_points_def hypot_def)

lemma knee_in_check_eq:
  "knee_in_check knee_w ankle_w =
     Inr (if 0 < ankle_w \<and> knee_w / ankle_w < 0.9 then [KneeIn (knee_w / ankle_w)] else [])"
  by (simp add: knee_in_check_def py_div_def)

section \<open>Posture: symmetric landmark sets\<close>

text \<open>
  A landmark set that is mirrored across the vertical midline can have a finding: with
  the knees a quarter as far apart as the ankles, the knee check fires.
\<close>

theorem mirrored_narrow_knees_counterexample:
  "mirrored (1 / 2) narrow_knees \<and>
   analyze_posture True (Some narrow_knees) =
     Inr \<lparr>ok_flag = True, message = AnalysisDone, findings = [KneeIn 0.25],
          advice = [KneeAdvice]\<rparr>"
  by (simp add: mirrored_def mirror_pair_def narrow_knees_def analyze_posture_def Let_def
      line_angle_deg_level dist_points_level knee_in_check_eq)

text \<open>
  When the left-hand point of a level pair has the smaller \<open>x\<close>, the angle from the
  right-hand point to the left-hand one is 180 degrees, and the tilt findings fire.
\<close>

lemma swapped_sides_findings:
  "mirrored (1 / 2) swapped_sides \<and>
   analyze_posture True (Some swapped_sides) =
     Inr \<lparr>ok_flag = True, message = AnalysisDone,
          findings = [ShoulderTilt 180, HipTilt 180, HeadTilt 180],
          advice = [ShoulderAdvice, HipAdvice, HeadAdvice]\<rparr>"
  by (simp add: mirrored_def mirror_pair_def swapped_sides_def analyze_posture_def Let_def
      line_angle_deg_level dist_points_level knee_in_check_eq)

text \<open>
  Claim C7, amended: for every landmark set whose five pairs are mirrored across a
  vertical line, and whose left shoulder, hip and ear are not at a smaller \<open>x\<close> than
  their right counterparts, the analysis succeeds without a tilt finding; its findings
  are empty exactly when the knee check does not fire (ankle distance zero, or knee
  distance at least 0.9 of the ankle distance), and are the one knee finding otherwise.
\<close>

theorem mirrored_landmarks_findings:
  assumes mir: "mirrored m lm"
    and sh: "fst (right_shoulder lm) \<le> fst (left_shoulder lm)"
    and hp: "fst (right_hip lm) \<le> fst (left_hip lm)"
    and er: "fst (right_ear lm) \<le> fst (left_ear lm)"
  shows "\<exists>r. analyze_posture True (Some lm) = Inr r \<and> ok_flag r \<and>
           findings r =
             (if 0 < dist_points (left_ankle lm) (right_ankle lm) \<and>
                 dist_points (left_knee lm) (right_knee lm) /
                   dist_points (left_ankle lm) (right_ankle lm) < 0.9
              then [KneeIn (dist_points (left_knee lm) (right_knee lm) /
                      dist_points (left_ankle lm) (right_ankle lm))]
              else [])"
proof -
  have "snd (right_shoulder lm) = snd (left_shoulder lm)"
    using mir by (simp add: mirrored_def mirror_pair_def)
  then have a1: "line_angle_deg (right_shoulder lm) (left_shoulder lm) = 0"
    using sh by (simp add: line_angle_deg_level)
  have "snd (right_hip lm) = snd (left_hip lm)"
    using mir by (simp add: mirrored_def mirror_pair_def)
  then have a2: "line_angle_deg (right_hip lm) (left_hip lm) = 0"
    using hp by (simp add: line_angle_deg_level)
  have "snd (right_ear lm) = snd (left_ear lm)"
    using mir by (simp add: mirrored_def mirror_pair_def)
  then have a3: "line_angle_deg (right_ear lm) (left_ear lm) = 0"
    using er by (simp add: line_angle_deg_level)
  show ?thesis
    by (simp add: analyze_posture_def Let_def a1 a2 a3 knee_in_check_eq)
qed

theorem mirrored_landmarks_findings_witness:
  "mirrored (1 / 2) level_knees \<and>
   fst (right_shoulder level_knees) \<le> fst (left_shoulder level_knees) \<and>
   fst (right_hip level_knees) \<le> fst (left_hip level_knees) \<and>
   fst (right_ear level_knees) \<le> fst (left_ear level_knees) \<and>
   (\<exists>r. analyze_posture True (Some level_knees) = Inr r \<and> ok_flag r \<and> findings r = [])"
proof -
  have h1: "mirrored (1 / 2) level_knees"
    by (simp add: mirrored_def mirror_pair_def level_knees_def)
  have h2: "fst (right_shoulder level_knees) \<le> fst (left_shoulder level_knees)"
    by (simp add: level_knees_def)
  have h3: "fst (right_hip level_knees) \<le> fst (left_hip level_knees)"
    by (simp add: level_knees_def)
  have h4: "fst (right_ear level_knees) \<le> fst (left_ear level_knees)"
    by (simp add: level_knees_def)
  have k: "dist_points (left_knee level_knees) (right_knee level_knees) = 0.25"
    by (simp add: level_knees_def dist_points_level)
  have a: "dist_points (left_ankle level_knees) (right_ankle level_knees) = 0.25"
    by (simp add: level_knees_def dist_points_level)
  show ?thesis
    using h1 h2 h3 h4 mirrored_landmarks_findings [OF h1 h2 h3 h4] by (simp add: k a)
qed

section \<open>Posture: the knee check\<close>

lemma hypot_3_4_5: "hypot (- 0.375) (- 0.5) = 0.625"
proof -
  have "(- 0.375) ^ 2 + (- 0.5) ^ 2 = (0.625 :: real) ^ 2"
    by (simp add: power2_eq_square)
  then show ?thesis
    unfolding hypot_def by (simp only: real_sqrt_abs) simp
qed

text \<open>
  Claim C8: for every landmark set the analysis returns a result, so no division by zero
  occurs, and the knee finding is among the findings exactly when the distance between
  the ankles, \<open>sqrt (dx\<^sup>2 + dy\<^sup>2)\<close> of their coordinates, is positive and the distance
  between the knees divided by it is below 0.9; with a zero ankle distance the check is
  skipped.
\<close>

theorem knee_tracking_fires_iff:
  "\<exists>r. analyze_posture True (Some lm) = Inr r \<and>
       (list_ex is_knee (findings r) \<longleftrightarrow>
          0 < sqrt ((fst (right_ankle lm) - fst (left_ankle lm)) ^ 2 +
                    (snd (right_ankle lm) - snd (left_ankle lm)) ^ 2) \<and>
          sqrt ((fst (right_knee lm) - fst (left_knee lm)) ^ 2 +
                (snd (right_knee lm) - snd (left_knee lm)) ^ 2) /
          sqrt ((fst (right_ankle lm) - fst (left_ankle lm)) ^ 2 +
                (snd (right_ankle lm) - snd (left_ankle lm)) ^ 2) < 0.9)"
  by (simp add: analyze_posture_def Let_def knee_in_check_eq dist_points_def hypot_def)

text \<open>
  Three landmark sets: with both ankles at one point the check is skipped; with level
  knees a quarter as far apart as the level ankles it fires; with the ankles 0.375 apart
  sideways and 0.5 in height, hence 0.625 apart, and the knees 0.375 apart, the quotient
  is 0.6 and it fires, with 0.6 as the value of the finding.
\<close>

theorem knee_tracking_fires_iff_witness:
  "(\<exists>r. analyze_posture True (Some joined_ankles) = Inr r \<and>
        \<not> list_ex is_knee (findings r)) \<and>
   (\<exists>r. analyze_posture True (Some narrow_knees) = Inr r \<and>
        list_ex is_knee (findings r)) \<and>
   (\<exists>r. analyze_posture True (Some diagonal_ankles) = Inr r \<and>
        list_ex is_knee (findings r))"
proof -
  have a0: "sqrt ((fst (right_ankle joined_ankles) - fst (left_ankle joined_ankles)) ^ 2 +
                  (snd (right_ankle joined_ankles) - snd (left_ankle joined_ankles)) ^ 2) = 0"
    by (simp add: joined_ankles_def)
  have k1: "sqrt ((fst (right_knee narrow_knees) - fst (left_knee narrow_knees)) ^ 2 +
                  (snd (right_knee narrow_knees) - snd (left_knee narrow_knees)) ^ 2) = 0.125"
    using hypot_level [of "- 0.125"] by (simp add: narrow_knees_def hypot_def)
  have a1: "sqrt ((fst (right_ankle narrow_knees) - fst (left_ankle narrow_knees)) ^ 2 +
                  (snd (right_ankle narrow_knees) - snd (left_ankle narrow_knees)) ^ 2) = 0.5"
    using hypot_level [of "- 0.5"] by (simp add: narrow_knees_def hypot_def)
  have k2: "sqrt ((fst (right_knee diagonal_ankles) - fst (left_knee diagonal_ankles)) ^ 2 +
                  (snd (right_knee diagonal_ankles) - snd (left_knee diagonal_ankles)) ^ 2)
              = 0.375"
    using hypot_level [of "- 0.375"] by (simp add: diagonal_ankles_def hypot_def)
  have a2: "sqrt ((fst (right_ankle diagonal_ankles) - fst (left_ankle diagonal_ankles)) ^ 2 +
                  (snd (right_ankle diagonal_ankles) - snd (left_ankle diagonal_ankles)) ^ 2)
              = 0.625"
    using hypot_3_4_5 by (simp add: diagonal_ankles_def hypot_def)
  show ?thesis
    using knee_tracking_fires_iff [of joined_ankles] knee_tracking_fires_iff [of narrow_knees]
      knee_tracking_fires_iff [of diagonal_ankles]
    by (simp only: a0 k1 a1 k2 a2) simp
qed

lemma diagonal_ankles_findings:
  "analyze_posture True (Some diagonal_ankles) =
     Inr \<lparr>ok_flag = True, message = AnalysisDone, findings = [KneeIn 0.6],
          advice = [KneeAdvice]\<rparr>"
proof -
  have k: "dist_points (left_knee diagonal_ankles) (right_knee diagonal_ankles) = 0.375"
    by (simp add: diagonal_ankles_def dist_points_level)
  have a: "dist_points (left_ankle diagonal_ankles) (right_ankle diagonal_ankles) = 0.625"
    using hypot_3_4_5 by (simp add: diagonal_ankles_def dist_points_def)
  have l: "line_angle_deg (right_shoulder diagonal_ankles) (left_shoulder diagonal_ankles) = 0"
    "line_angle_deg (right_hip diagonal_ankles) (left_hip diagonal_ankles) = 0"
    "line_angle_deg (right_ear diagonal_ankles) (left_ear diagonal_ankles) = 0"
    by (simp_all add: diagonal_ankles_def line_angle_deg_level)
  show ?thesis
    by (simp add: analyze_posture_def Let_def k a l knee_in_check_eq)
qed

end
